theory Spec2Isabelle
  imports Main "HOL-Library.Word" "HOL-Library.List_Lexorder" "HOL-Library.Multiset"
begin

section \<open>Values shared by the modelled functions of app.py\<close>

text \<open>
  A Python \<open>str\<close> is a sequence of Unicode code points; \<open>pystr\<close> keeps exactly that, so that
  \<open>strip\<close> and the ordering of strings act on code points as Python's do. \<open>str\<close> turns an
  ASCII literal of this file into such a sequence.
\<close>

type_synonym pystr = "nat list"

definition str :: "string \<Rightarrow> pystr" where
  "str s = map of_char s"

text \<open>
  What \<open>json.loads\<close> / \<open>json.load\<close> can return. An object is the list of its items in the
  order of \<open>dict.items()\<close>; a float is carried as its 64 bits and never computed with.
\<close>

datatype json =
    JNull
  | JBool bool
  | JInt int
  | JFloat "64 word"
  | JStr pystr
  | JList "json list"
  | JDict "(pystr \<times> json) list"

text \<open>Exceptions as values. \<open>Raised\<close> stands for any exception class not named here.\<close>

datatype exn =
    JSONDecodeError pystr
  | IndexError
  | AttributeError
  | TypeError
  | FileNotFoundError
  | PermissionError
  | IsADirectoryError
  | NotADirectoryError
  | Raised pystr

text \<open>
  The user-visible messages of the modelled functions. Their fixed wording is Cyrillic text
  in the source; each constructor stands for one message of the source and carries the
  values interpolated into it.
\<close>

datatype notice =
    UsedListFromKey pystr      \<comment> \<open>line 361, with the key\<close>
  | JsonNotAList              \<comment> \<open>line 363\<close>
  | JsonDecodeFailed exn      \<comment> \<open>line 367, with the exception\<close>
  | NoValidJson               \<comment> \<open>line 368\<close>
  | CompareFailed exn         \<comment> \<open>line 372, with the exception\<close>
  | TranscribeFailed exn      \<comment> \<open>line 288, with the exception\<close>
  | ComparingTestimonies      \<comment> \<open>line 771\<close>
  | NoContradictionsFound     \<comment> \<open>line 775\<close>
  | CompareApiError           \<comment> \<open>line 776\<close>

datatype ui_event = St_info notice | St_warning notice | St_error notice

datatype printed =
    UnexpectedJson pystr       \<comment> \<open>line 364, with the raw response\<close>
  | InvalidJson pystr          \<comment> \<open>line 369, with the raw response\<close>

datatype log_record =
    HistoryFileError pystr exn \<comment> \<open>logger.error of line 173: file name and exception\<close>

text \<open>
  A path of the file system names a regular file (whether it can be opened for reading, and
  its bytes) or a directory (the names \<open>os.listdir\<close> returns, in its order).
\<close>

datatype node =
    File bool "nat list"
  | Dir "pystr list"

text \<open>
  The state the modelled functions act on: the file system, the messages shown through
  Streamlit (\<open>st.info\<close>, \<open>st.warning\<close>, \<open>st.error\<close>), the lines printed and the records
  logged, each in order of emission. Showing, printing and logging only append; they are
  taken not to raise.
\<close>

record world =
  files :: "pystr \<rightharpoonup> node"
  ui :: "ui_event list"
  stdout :: "printed list"
  logged :: "log_record list"

definition st_info :: "notice \<Rightarrow> world \<Rightarrow> world" where
  "st_info n w = w\<lparr>ui := ui w @ [St_info n]\<rparr>"

definition st_warning :: "notice \<Rightarrow> world \<Rightarrow> world" where
  "st_warning n w = w\<lparr>ui := ui w @ [St_warning n]\<rparr>"

definition st_error :: "notice \<Rightarrow> world \<Rightarrow> world" where
  "st_error n w = w\<lparr>ui := ui w @ [St_error n]\<rparr>"

definition print :: "printed \<Rightarrow> world \<Rightarrow> world" where
  "print p w = w\<lparr>stdout := stdout w @ [p]\<rparr>"

definition logger_error :: "log_record \<Rightarrow> world \<Rightarrow> world" where
  "logger_error r w = w\<lparr>logged := logged w @ [r]\<rparr>"

section \<open>The OpenAI client as the code uses it\<close>

text \<open>
  The fixed texts of a request are Cyrillic literals of the source; a prompt is the list of
  its pieces in order, the caller's texts verbatim.
\<close>

datatype fixed_text =
    CompareSystemMessage      \<comment> \<open>line 346\<close>
  | CompareInstructions       \<comment> \<open>lines 322 to 339, up to the label of person 1\<close>
  | Person2Label              \<comment> \<open>lines 339 to 340, the label of person 2\<close>

datatype chunk = Fixed fixed_text | Verbatim pystr

record chat_request =
  model :: string
  system_content :: "chunk list"
  user_content :: "chunk list"
  temperature_tenths :: nat
  json_object_format :: bool

text \<open>\<open>response.choices[i].message.content\<close>: a list of choices, each with an optional text.\<close>

datatype choice = Choice (message_content: "pystr option")

datatype completion = Completion (choices: "choice list")

text \<open>
  A client answers a chat request, or a transcription request (the bytes of the audio file
  and the language), with a value or with an exception.
\<close>

record client =
  chat_create :: "chat_request \<Rightarrow> exn + completion"
  transcriptions_create :: "nat list \<Rightarrow> string \<Rightarrow> exn + pystr"

section \<open>compare\_testimonies (lines 317 to 373)\<close>

definition py_isspace :: "nat \<Rightarrow> bool" where
  "py_isspace c \<longleftrightarrow>
     (9 \<le> c \<and> c \<le> 13) \<or> (28 \<le> c \<and> c \<le> 32) \<or> c = 133 \<or> c = 160 \<or> c = 5760 \<or>
     (8192 \<le> c \<and> c \<le> 8202) \<or> c = 8232 \<or> c = 8233 \<or> c = 8239 \<or> c = 8287 \<or> c = 12288"

definition strip :: "pystr \<Rightarrow> pystr" where
  "strip s = rev (dropWhile py_isspace (rev (dropWhile py_isspace s)))"

definition compare_request :: "pystr \<Rightarrow> pystr \<Rightarrow> chat_request" where
  "compare_request text1 text2 =
     \<lparr> model = ''gpt-4o-mini'',
       system_content = [Fixed CompareSystemMessage],
       user_content = [Fixed CompareInstructions, Verbatim text1, Fixed Person2Label, Verbatim text2],
       temperature_tenths = 3,
       json_object_format = True \<rparr>"

text \<open>\<open>response.choices[0].message.content.strip()\<close>, line 352.\<close>

definition raw_response_of :: "completion \<Rightarrow> exn + pystr" where
  "raw_response_of response =
     (case choices response of
        [] \<Rightarrow> Inl IndexError
      | c # _ \<Rightarrow> (case message_content c of
                    None \<Rightarrow> Inl AttributeError
                  | Some s \<Rightarrow> Inr (strip s)))"

text \<open>The loop of lines 359 to 362: the first item whose value is a list.\<close>

fun first_list_item :: "(pystr \<times> json) list \<Rightarrow> (pystr \<times> json list) option" where
  "first_list_item [] = None"
| "first_list_item ((key, JList xs) # items) = Some (key, xs)"
| "first_list_item ((key, v) # items) = first_list_item items"

text \<open>
  Lines 353 to 370, the inner \<open>try\<close>: \<open>loads\<close> is \<open>json.loads\<close>. A \<open>JSONDecodeError\<close> is
  handled here; any other exception leaves the block.
\<close>

definition interpret_response ::
  "(pystr \<Rightarrow> exn + json) \<Rightarrow> pystr \<Rightarrow> world \<Rightarrow> exn + (json list \<times> world)" where
  "interpret_response loads raw_response w =
     (case loads raw_response of
        Inr (JList xs) \<Rightarrow> Inr (xs, w)
      | Inr (JDict items) \<Rightarrow>
          (case first_list_item items of
             Some (key, xs) \<Rightarrow> Inr (xs, st_warning (UsedListFromKey key) w)
           | None \<Rightarrow> Inr ([], print (UnexpectedJson raw_response) (st_error JsonNotAList w)))
      | Inr _ \<Rightarrow> Inr ([], print (UnexpectedJson raw_response) (st_error JsonNotAList w))
      | Inl (JSONDecodeError m) \<Rightarrow>
          Inr ([], print (InvalidJson raw_response)
                     (st_warning NoValidJson (st_error (JsonDecodeFailed (JSONDecodeError m)) w)))
      | Inl e \<Rightarrow> Inl e)"

text \<open>Lines 342 to 370, the body of the outer \<open>try\<close>.\<close>

definition compare_body ::
  "client \<Rightarrow> (pystr \<Rightarrow> exn + json) \<Rightarrow> pystr \<Rightarrow> pystr \<Rightarrow> world \<Rightarrow> exn + (json list \<times> world)" where
  "compare_body cl loads text1 text2 w =
     (case chat_create cl (compare_request text1 text2) of
        Inl e \<Rightarrow> Inl e
      | Inr response \<Rightarrow>
          (case raw_response_of response of
             Inl e \<Rightarrow> Inl e
           | Inr raw_response \<Rightarrow> interpret_response loads raw_response w))"

text \<open>
  The whole function: the result is \<open>Some\<close> list, or \<open>None\<close> for Python's \<open>None\<close> of line 373.
\<close>

definition compare_testimonies ::
  "client \<Rightarrow> (pystr \<Rightarrow> exn + json) \<Rightarrow> pystr \<Rightarrow> pystr \<Rightarrow> world \<Rightarrow> json list option \<times> world" where
  "compare_testimonies cl loads text1 text2 w =
     (case compare_body cl loads text1 text2 w of
        Inr (xs, w') \<Rightarrow> (Some xs, w')
      | Inl e \<Rightarrow> (None, st_error (CompareFailed e) w))"

text \<open>
  Lines 768 to 776 of show\_transcription\_module, the one caller: what it stores under
  \<open>'contradictions'\<close>. A transcription is a string or \<open>None\<close>; it is true in a condition
  when it is a non-empty string.
\<close>

definition store_contradictions ::
  "client \<Rightarrow> (pystr \<Rightarrow> exn + json) \<Rightarrow> bool \<Rightarrow> pystr option \<Rightarrow> pystr option \<Rightarrow> world
     \<Rightarrow> json list \<times> world" where
  "store_contradictions cl loads find_contradictions transcription1 transcription2 w =
     (case (transcription1, transcription2) of
        (Some text1, Some text2) \<Rightarrow>
          if find_contradictions \<and> text1 \<noteq> [] \<and> text2 \<noteq> [] then
            (case compare_testimonies cl loads text1 text2 (st_info ComparingTestimonies w) of
               (Some contradictions_result, w') \<Rightarrow>
                 (contradictions_result,
                  if contradictions_result = [] then st_info NoContradictionsFound w' else w')
             | (None, w') \<Rightarrow> ([], st_error CompareApiError w'))
          else ([], w)
      | _ \<Rightarrow> ([], w))"

text \<open>
  What the prompt of lines 329 to 337 asks each element to be: an object with exactly the
  four keys, each with a string value.
\<close>

definition is_str :: "json \<Rightarrow> bool" where
  "is_str v = (case v of JStr _ \<Rightarrow> True | _ \<Rightarrow> False)"

definition is_list :: "json \<Rightarrow> bool" where
  "is_list v = (case v of JList _ \<Rightarrow> True | _ \<Rightarrow> False)"

definition is_contradiction :: "json \<Rightarrow> bool" where
  "is_contradiction x =
     (case x of
        JDict items \<Rightarrow>
          distinct (map fst items) \<and>
          set (map fst items) =
            {str ''description'', str ''quote1'', str ''quote2'', str ''significance''} \<and>
          list_all (\<lambda>kv. is_str (snd kv)) items
      | _ \<Rightarrow> False)"

section \<open>The file system as the code uses it\<close>

definition os_path_exists :: "world \<Rightarrow> pystr \<Rightarrow> bool" where
  "os_path_exists w path \<longleftrightarrow> files w path \<noteq> None"

text \<open>\<open>open(path)\<close> for reading: the bytes of the file, or the exception.\<close>

definition py_open :: "world \<Rightarrow> pystr \<Rightarrow> exn + nat list" where
  "py_open w path =
     (case files w path of
        None \<Rightarrow> Inl FileNotFoundError
      | Some (Dir names) \<Rightarrow> Inl IsADirectoryError
      | Some (File readable bytes) \<Rightarrow> if readable then Inr bytes else Inl PermissionError)"

definition os_remove :: "pystr \<Rightarrow> world \<Rightarrow> exn + world" where
  "os_remove path w =
     (case files w path of
        None \<Rightarrow> Inl FileNotFoundError
      | Some (Dir names) \<Rightarrow> Inl IsADirectoryError
      | Some (File readable bytes) \<Rightarrow> Inr (w\<lparr>files := (files w)(path := None)\<rparr>))"

definition os_listdir :: "world \<Rightarrow> pystr \<Rightarrow> exn + pystr list" where
  "os_listdir w path =
     (case files w path of
        None \<Rightarrow> Inl FileNotFoundError
      | Some (File readable bytes) \<Rightarrow> Inl NotADirectoryError
      | Some (Dir names) \<Rightarrow> Inr names)"

text \<open>\<open>os.path.join\<close> of two components (POSIX); 47 is the slash.\<close>

definition os_path_join :: "pystr \<Rightarrow> pystr \<Rightarrow> pystr" where
  "os_path_join a b =
     (if b \<noteq> [] \<and> hd b = 47 then b
      else if a = [] \<or> last a = 47 then a @ b
      else a @ [47] @ b)"

definition endswith :: "pystr \<Rightarrow> pystr \<Rightarrow> bool" where
  "endswith s suffix \<longleftrightarrow>
     length suffix \<le> length s \<and> drop (length s - length suffix) s = suffix"

section \<open>transcribe\_audio (lines 277 to 292)\<close>

text \<open>
  The \<open>try\<close> with its \<open>except\<close> gives the value to return and the messages; the \<open>finally\<close>
  then removes the file if the path exists, and an exception of \<open>os.remove\<close> replaces the
  return.
\<close>

definition transcribe_attempt :: "client \<Rightarrow> pystr \<Rightarrow> string \<Rightarrow> world \<Rightarrow> pystr option \<times> world" where
  "transcribe_attempt cl audio_file language w =
     (case py_open w audio_file of
        Inl e \<Rightarrow> (None, st_error (TranscribeFailed e) w)
      | Inr file \<Rightarrow>
          (case transcriptions_create cl file language of
             Inl e \<Rightarrow> (None, st_error (TranscribeFailed e) w)
           | Inr transcript_text \<Rightarrow> (Some transcript_text, w)))"

definition transcribe_audio ::
  "client \<Rightarrow> pystr \<Rightarrow> string \<Rightarrow> world \<Rightarrow> (exn + pystr option) \<times> world" where
  "transcribe_audio cl audio_file language w =
     (case transcribe_attempt cl audio_file language w of
        (result, w1) \<Rightarrow>
          if os_path_exists w1 audio_file then
            (case os_remove audio_file w1 of
               Inl e \<Rightarrow> (Inl e, w1)
             | Inr w2 \<Rightarrow> (Inr result, w2))
          else (Inr result, w1))"

section \<open>load\_history (lines 159 to 176)\<close>

text \<open>
  The loop of lines 168 to 173. \<open>load\<close> is \<open>json.load\<close> on the opened file (decoding its
  bytes as UTF-8 and parsing them); every exception of the body is logged and the file
  skipped.
\<close>

fun load_files ::
  "(nat list \<Rightarrow> exn + json) \<Rightarrow> pystr \<Rightarrow> pystr list \<Rightarrow> json list \<Rightarrow> world \<Rightarrow> json list \<times> world" where
  "load_files load history_path [] history w = (history, w)"
| "load_files load history_path (file # rest) history w =
     (case py_open w (os_path_join history_path file) of
        Inl e \<Rightarrow>
          load_files load history_path rest history (logger_error (HistoryFileError file e) w)
      | Inr f \<Rightarrow>
          (case load f of
             Inl e \<Rightarrow>
               load_files load history_path rest history
                 (logger_error (HistoryFileError file e) w)
           | Inr x \<Rightarrow> load_files load history_path rest (history @ [x]) w))"

text \<open>The key of line 176: \<open>x.get('generatedDate', '')\<close>; only a dict has \<open>get\<close>.\<close>

definition date_key :: "json \<Rightarrow> exn + json" where
  "date_key x =
     (case x of
        JDict items \<Rightarrow>
          Inr (case map_of items (str ''generatedDate'') of None \<Rightarrow> JStr [] | Some v \<Rightarrow> v)
      | _ \<Rightarrow> Inl AttributeError)"

text \<open>
  \<open>sorted(xs, key=key, reverse=True)\<close>, by its contract: the key of every element is computed
  first, in order; the elements are then put in descending order of their keys, elements
  with equal keys staying in their original order; only \<open><\<close> is asked of two keys, here the
  parameter \<open>lt\<close>, and an exception of the key function or of \<open><\<close> is the outcome of the call.
\<close>

fun with_keys :: "('a \<Rightarrow> exn + 'k) \<Rightarrow> 'a list \<Rightarrow> exn + ('k \<times> 'a) list" where
  "with_keys key [] = Inr []"
| "with_keys key (x # xs) =
     (case key x of
        Inl e \<Rightarrow> Inl e
      | Inr k \<Rightarrow> (case with_keys key xs of Inl e \<Rightarrow> Inl e | Inr kxs \<Rightarrow> Inr ((k, x) # kxs)))"

fun insert_desc ::
  "('k \<Rightarrow> 'k \<Rightarrow> exn + bool) \<Rightarrow> 'k \<times> 'a \<Rightarrow> ('k \<times> 'a) list \<Rightarrow> exn + ('k \<times> 'a) list" where
  "insert_desc lt x [] = Inr [x]"
| "insert_desc lt x (y # ys) =
     (case lt (fst x) (fst y) of
        Inl e \<Rightarrow> Inl e
      | Inr True \<Rightarrow> (case insert_desc lt x ys of Inl e \<Rightarrow> Inl e | Inr zs \<Rightarrow> Inr (y # zs))
      | Inr False \<Rightarrow> Inr (x # y # ys))"

fun sort_desc :: "('k \<Rightarrow> 'k \<Rightarrow> exn + bool) \<Rightarrow> ('k \<times> 'a) list \<Rightarrow> exn + ('k \<times> 'a) list" where
  "sort_desc lt [] = Inr []"
| "sort_desc lt (x # xs) =
     (case sort_desc lt xs of Inl e \<Rightarrow> Inl e | Inr ys \<Rightarrow> insert_desc lt x ys)"

definition sorted_reverse ::
  "('k \<Rightarrow> 'k \<Rightarrow> exn + bool) \<Rightarrow> ('a \<Rightarrow> exn + 'k) \<Rightarrow> 'a list \<Rightarrow> exn + 'a list" where
  "sorted_reverse lt key xs =
     (case with_keys key xs of
        Inl e \<Rightarrow> Inl e
      | Inr kxs \<Rightarrow> (case sort_desc lt kxs of Inl e \<Rightarrow> Inl e | Inr ys \<Rightarrow> Inr (map snd ys)))"

definition load_history ::
  "(json \<Rightarrow> json \<Rightarrow> exn + bool) \<Rightarrow> (nat list \<Rightarrow> exn + json) \<Rightarrow> pystr \<Rightarrow> world
     \<Rightarrow> (exn + json list) \<times> world" where
  "load_history lt load module_type w =
     (let history_path = str ''storage/'' @ module_type in
      if \<not> os_path_exists w history_path then (Inr [], w)
      else
        (case os_listdir w history_path of
           Inl e \<Rightarrow> (Inl e, w)
         | Inr names \<Rightarrow>
             (case load_files load history_path
                     (filter (\<lambda>f. endswith f (str ''.json'')) names) [] w of
                (history, w') \<Rightarrow> (sorted_reverse lt date_key history, w'))))"

section \<open>Vocabulary of the statements\<close>

text \<open>
  The names of a listing that the loop reads, the outcome of reading one file, and, for a
  list of file names, the records of those that can be read and the log records of those
  that cannot, each in the order of the list.
\<close>

definition json_files :: "pystr list \<Rightarrow> pystr list" where
  "json_files names = filter (\<lambda>f. endswith f (str ''.json'')) names"

definition read_record :: "(nat list \<Rightarrow> exn + json) \<Rightarrow> world \<Rightarrow> pystr \<Rightarrow> pystr \<Rightarrow> exn + json" where
  "read_record load w history_path file =
     (case py_open w (os_path_join history_path file) of Inl e \<Rightarrow> Inl e | Inr f \<Rightarrow> load f)"

definition readable_records ::
  "(nat list \<Rightarrow> exn + json) \<Rightarrow> world \<Rightarrow> pystr \<Rightarrow> pystr list \<Rightarrow> json list" where
  "readable_records load w history_path file_names =
     concat (map (\<lambda>file. case read_record load w history_path file of
                            Inl e \<Rightarrow> [] | Inr x \<Rightarrow> [x]) file_names)"

definition failure_records ::
  "(nat list \<Rightarrow> exn + json) \<Rightarrow> world \<Rightarrow> pystr \<Rightarrow> pystr list \<Rightarrow> log_record list" where
  "failure_records load w history_path file_names =
     concat (map (\<lambda>file. case read_record load w history_path file of
                            Inl e \<Rightarrow> [HistoryFileError file e] | Inr x \<Rightarrow> []) file_names)"

text \<open>
  A record with a date: an object whose \<open>generatedDate\<close>, when present, is a string. Its
  date is that string, and the empty string when the field is absent.
\<close>

definition has_text_date :: "json \<Rightarrow> bool" where
  "has_text_date x =
     (case x of
        JDict items \<Rightarrow>
          (case map_of items (str ''generatedDate'') of
             None \<Rightarrow> True | Some (JStr s) \<Rightarrow> True | Some _ \<Rightarrow> False)
      | _ \<Rightarrow> False)"

definition lacks_date :: "json \<Rightarrow> bool" where
  "lacks_date x =
     (case x of JDict items \<Rightarrow> map_of items (str ''generatedDate'') = None | _ \<Rightarrow> False)"

definition date_text :: "json \<Rightarrow> pystr" where
  "date_text x =
     (case x of
        JDict items \<Rightarrow>
          (case map_of items (str ''generatedDate'') of Some (JStr s) \<Rightarrow> s | _ \<Rightarrow> [])
      | _ \<Rightarrow> [])"

definition key_text :: "json \<Rightarrow> pystr" where
  "key_text k = (case k of JStr s \<Rightarrow> s | _ \<Rightarrow> [])"

text \<open>Python's \<open><\<close> on two strings: the lexicographic order of their code points.\<close>

definition newer_first :: "json \<Rightarrow> json \<Rightarrow> bool" where
  "newer_first a b \<longleftrightarrow> date_text b \<le> date_text a"

definition key_desc :: "json \<times> 'a \<Rightarrow> json \<times> 'a \<Rightarrow> bool" where
  "key_desc a b \<longleftrightarrow> key_text (fst b) \<le> key_text (fst a)"

definition compares_strings :: "(json \<Rightarrow> json \<Rightarrow> exn + bool) \<Rightarrow> bool" where
  "compares_strings lt \<longleftrightarrow> (\<forall>a b. lt (JStr a) (JStr b) = Inr (a < b))"

text \<open>Whether some value, or no value, of an object's items is a list.\<close>

definition has_list_value :: "(pystr \<times> json) list \<Rightarrow> bool" where
  "has_list_value items = list_ex (\<lambda>kv. is_list (snd kv)) items"

definition no_list_value :: "(pystr \<times> json) list \<Rightarrow> bool" where
  "no_list_value items = list_all (\<lambda>kv. \<not> is_list (snd kv)) items"

definition list_values :: "(pystr \<times> json) list \<Rightarrow> (pystr \<times> json) list" where
  "list_values items = filter (\<lambda>kv. is_list (snd kv)) items"

definition is_decode_error :: "exn \<Rightarrow> bool" where
  "is_decode_error e = (case e of JSONDecodeError m \<Rightarrow> True | _ \<Rightarrow> False)"

section \<open>Stub backends and small worlds for the examples\<close>

definition stub_client :: "(exn + completion) \<Rightarrow> (exn + pystr) \<Rightarrow> client" where
  "stub_client chat_answer transcript_answer =
     \<lparr> chat_create = (\<lambda>request. chat_answer),
       transcriptions_create = (\<lambda>file language. transcript_answer) \<rparr>"

definition stub_reply :: "pystr \<Rightarrow> client" where
  "stub_reply s = stub_client (Inr (Completion [Choice (Some s)])) (Inl (Raised []))"

definition stub_loads :: "(pystr \<times> json) list \<Rightarrow> pystr \<Rightarrow> exn + json" where
  "stub_loads table s =
     (case map_of table s of Some v \<Rightarrow> Inr v | None \<Rightarrow> Inl (JSONDecodeError s))"

definition stub_load :: "(nat list \<times> json) list \<Rightarrow> nat list \<Rightarrow> exn + json" where
  "stub_load table bytes =
     (case map_of table bytes of Some v \<Rightarrow> Inr v | None \<Rightarrow> Inl (JSONDecodeError []))"

definition stub_lt :: "json \<Rightarrow> json \<Rightarrow> exn + bool" where
  "stub_lt a b =
     (case (a, b) of (JStr s, JStr t) \<Rightarrow> Inr (s < t) | _ \<Rightarrow> Inl TypeError)"

definition world_of :: "(pystr \<times> node) list \<Rightarrow> world" where
  "world_of nodes = \<lparr> files = map_of nodes, ui = [], stdout = [], logged = [] \<rparr>"

definition a_contradiction :: json where
  "a_contradiction =
     JDict [(str ''description'', JStr (str ''time of leaving'')),
            (str ''quote1'', JStr (str ''I left at 9'')),
            (str ''quote2'', JStr (str ''He left after 11'')),
            (str ''significance'', JStr (str ''medium''))]"

definition list_payload :: pystr where
  "list_payload = str ''[{\"description\": \"time of leaving\", \"quote1\": \"I left at 9\", \"quote2\": \"He left after 11\", \"significance\": \"medium\"}]''"

definition wrapped_payload :: pystr where
  "wrapped_payload = str ''{\"note\": \"found one\", \"contradictions\": [{\"description\": \"time of leaving\", \"quote1\": \"I left at 9\", \"quote2\": \"He left after 11\", \"significance\": \"medium\"}]}''"

definition wrapped_value :: json where
  "wrapped_value =
     JDict [(str ''note'', JStr (str ''found one'')),
            (str ''contradictions'', JList [a_contradiction])]"

definition listless_payload :: pystr where
  "listless_payload = str ''{\"answer\": \"none\", \"count\": 0}''"

definition listless_value :: json where
  "listless_value = JDict [(str ''answer'', JStr (str ''none'')), (str ''count'', JInt 0)]"

definition loose_payload :: pystr where
  "loose_payload = str ''[\"text\", 5, {\"description\": \"only this\"}]''"

definition loose_value :: "json list" where
  "loose_value =
     [JStr (str ''text''), JInt 5, JDict [(str ''description'', JStr (str ''only this''))]]"

definition stub_json :: "pystr \<Rightarrow> exn + json" where
  "stub_json =
     stub_loads [(list_payload, JList [a_contradiction]),
                 (wrapped_payload, wrapped_value),
                 (listless_payload, listless_value),
                 (loose_payload, JList loose_value)]"

definition statement1 :: pystr where
  "statement1 = str ''I left at 9''"

definition statement2 :: pystr where
  "statement2 = str ''He left after 11''"

definition broken_payload :: pystr where
  "broken_payload = str ''not json''"

definition stub_null_reply :: client where
  "stub_null_reply = stub_client (Inr (Completion [Choice None])) (Inl (Raised []))"

definition stub_failing :: client where
  "stub_failing = stub_client (Inl (Raised (str ''connection refused''))) (Inl (Raised []))"

definition audio_path :: pystr where
  "audio_path = str ''/tmp/tmpk3x9.mp3''"

definition audio_world :: world where
  "audio_world = world_of [(audio_path, File True [73, 68, 51])]"

definition stub_whisper :: "(exn + pystr) \<Rightarrow> client" where
  "stub_whisper answer = stub_client (Inl (Raised [])) answer"

definition plan_2024 :: json where
  "plan_2024 =
     JDict [(str ''id'', JStr (str ''P-1'')), (str ''generatedDate'', JStr (str ''2024-05-01T10:00:00''))]"

definition plan_2025 :: json where
  "plan_2025 =
     JDict [(str ''id'', JStr (str ''P-2'')), (str ''generatedDate'', JStr (str ''2025-01-15T08:30:00''))]"

definition plan_undated :: json where
  "plan_undated = JDict [(str ''id'', JStr (str ''P-3''))]"

definition history_world :: world where
  "history_world =
     world_of [(str ''storage/planning'',
                  Dir [str ''b.json'', str ''notes.txt'', str ''a.json'', str ''c.json'',
                       str ''d.json'', str ''e.json'']),
               (str ''storage/planning/b.json'', File True [98]),
               (str ''storage/planning/notes.txt'', File True [110]),
               (str ''storage/planning/a.json'', File True [97]),
               (str ''storage/planning/c.json'', File True [99]),
               (str ''storage/planning/d.json'', File False [100]),
               (str ''storage/planning/e.json'', File True [101])]"

definition history_load :: "nat list \<Rightarrow> exn + json" where
  "history_load = stub_load [([98], plan_2024), ([97], plan_2025), ([99], plan_undated)]"

definition odd_world :: world where
  "odd_world =
     world_of [(str ''storage/planning'', Dir [str ''x.json'', str ''n.json'']),
               (str ''storage/planning/x.json'', File True [120]),
               (str ''storage/planning/n.json'', File True [53])]"

definition odd_load :: "nat list \<Rightarrow> exn + json" where
  "odd_load = stub_load [([53], JInt 5)]"

text \<open>
  A payload of a thousand opening brackets is not JSON, and \<open>json.loads\<close> gives up on it
  with a \<open>RecursionError\<close> before it can report a \<open>JSONDecodeError\<close>; 91 is the bracket.
\<close>

definition deep_payload :: pystr where
  "deep_payload = replicate 1000 91"

definition stub_json_deep :: "pystr \<Rightarrow> exn + json" where
  "stub_json_deep s =
     (if s = deep_payload then Inl (Raised (str ''RecursionError'')) else stub_json s)"

section \<open>compare\_testimonies: the shape of the response decides the result\<close>

lemma compare_testimonies_replied:
  assumes "chat_create cl (compare_request text1 text2) = Inr response"
    and "raw_response_of response = Inr payload"
  shows "compare_testimonies cl loads text1 text2 w =
           (case interpret_response loads payload w of
              Inr (xs, w') \<Rightarrow> (Some xs, w')
            | Inl e \<Rightarrow> (None, st_error (CompareFailed e) w))"
  using assms by (simp add: compare_testimonies_def compare_body_def)

lemma interpret_list: "loads payload = Inr (JList xs) \<Longrightarrow> interpret_response loads payload w = Inr (xs, w)"
  by (simp add: interpret_response_def)

lemma first_list_item_found:
  "\<forall>kv\<in>set before. \<not> is_list (snd kv) \<Longrightarrow>
     first_list_item (before @ (key, JList xs) # after) = Some (key, xs)"
proof (induction before)
  case Nil
  show ?case by simp
next
  case (Cons kv before)
  obtain k v where kv: "kv = (k, v)" by (cases kv)
  from Cons.prems kv have "\<not> is_list v" by simp
  then have "first_list_item ((k, v) # before @ (key, JList xs) # after) =
               first_list_item (before @ (key, JList xs) # after)"
    by (cases v) (simp_all add: is_list_def)
  with Cons kv show ?case by simp
qed

lemma first_list_item_none:
  "\<forall>kv\<in>set items. \<not> is_list (snd kv) \<Longrightarrow> first_list_item items = None"
proof (induction items)
  case Nil
  show ?case by simp
next
  case (Cons kv items)
  obtain k v where kv: "kv = (k, v)" by (cases kv)
  from Cons.prems kv have "\<not> is_list v" by simp
  then have "first_list_item ((k, v) # items) = first_list_item items"
    by (cases v) (simp_all add: is_list_def)
  with Cons kv show ?case by simp
qed

lemma is_list_iff: "is_list v \<longleftrightarrow> (\<exists>xs. v = JList xs)"
  by (cases v) (simp_all add: is_list_def)

lemma first_list_split:
  assumes "\<exists>kv\<in>set items. is_list (snd kv)"
  shows "\<exists>before key xs after. items = before @ (key, JList xs) # after \<and>
           (\<forall>kv\<in>set before. \<not> is_list (snd kv))"
proof -
  from assms obtain before kv after
    where split: "items = before @ kv # after" and kv: "is_list (snd kv)"
      and before: "\<forall>y\<in>set before. \<not> is_list (snd y)"
    by (auto dest!: split_list_first_prop)
  from kv obtain key xs where "kv = (key, JList xs)"
    by (cases kv) (auto simp: is_list_iff)
  with split before show ?thesis by blast
qed

lemma only_list_split:
  assumes "filter (\<lambda>kv. is_list (snd kv)) items = [(key, JList xs)]"
  shows "\<exists>before after. items = before @ (key, JList xs) # after \<and>
           (\<forall>kv\<in>set before. \<not> is_list (snd kv))"
proof -
  from assms have "filter (\<lambda>kv. is_list (snd kv)) items = (key, JList xs) # []" by simp
  then obtain before after where "items = before @ (key, JList xs) # after"
      and "\<forall>u\<in>set before. \<not> is_list (snd u)"
    unfolding filter_eq_Cons_iff by blast
  then show ?thesis by blast
qed

lemma interpret_salvage:
  assumes "loads payload = Inr (JDict (before @ (key, JList xs) # after))"
    and "\<forall>kv\<in>set before. \<not> is_list (snd kv)"
  shows "interpret_response loads payload w = Inr (xs, st_warning (UsedListFromKey key) w)"
  using assms by (simp add: interpret_response_def first_list_item_found)

lemma interpret_listless:
  assumes "loads payload = Inr (JDict items)" and "no_list_value items"
  shows "interpret_response loads payload w =
           Inr ([], print (UnexpectedJson payload) (st_error JsonNotAList w))"
proof -
  from assms(2) have "\<forall>kv\<in>set items. \<not> is_list (snd kv)"
    by (simp add: no_list_value_def list_all_iff)
  then have "first_list_item items = None" by (rule first_list_item_none)
  with assms(1) show ?thesis by (simp add: interpret_response_def)
qed

lemma interpret_undecodable:
  assumes "loads payload = Inl (JSONDecodeError m)"
  shows "interpret_response loads payload w =
           Inr ([], print (InvalidJson payload)
                      (st_warning NoValidJson (st_error (JsonDecodeFailed (JSONDecodeError m)) w)))"
  using assms by (simp add: interpret_response_def)

lemma stub_reply_answers:
  "chat_create (stub_reply s) request = Inr (Completion [Choice (Some s)])"
  by (simp add: stub_reply_def stub_client_def)

lemma payloads_differ:
  "list_payload \<noteq> wrapped_payload" "list_payload \<noteq> listless_payload"
  "list_payload \<noteq> loose_payload" "wrapped_payload \<noteq> listless_payload"
  "wrapped_payload \<noteq> loose_payload" "listless_payload \<noteq> loose_payload"
  by (simp_all add: list_payload_def wrapped_payload_def listless_payload_def
        loose_payload_def str_def)

lemma payloads_stripped:
  "strip list_payload = list_payload" "strip wrapped_payload = wrapped_payload"
  "strip listless_payload = listless_payload" "strip loose_payload = loose_payload"
  by (simp_all add: list_payload_def wrapped_payload_def listless_payload_def
        loose_payload_def str_def strip_def py_isspace_def)

lemma stub_json_values:
  "stub_json list_payload = Inr (JList [a_contradiction])"
  "stub_json wrapped_payload = Inr wrapped_value"
  "stub_json listless_payload = Inr listless_value"
  "stub_json loose_payload = Inr (JList loose_value)"
  using payloads_differ by (simp_all add: stub_json_def stub_loads_def)

lemma a_contradiction_ok: "is_contradiction a_contradiction"
  by (simp add: is_contradiction_def a_contradiction_def is_str_def str_def)

text \<open>
  C1. When the call answers and the payload parses as a JSON list of four-field
  contradiction objects, compare\_testimonies returns exactly that list, elements and order
  unchanged, and emits nothing.
\<close>

theorem compare_testimonies_list_identity:
  assumes "chat_create cl (compare_request text1 text2) = Inr response"
    and "raw_response_of response = Inr payload"
    and "loads payload = Inr (JList xs)"
    and "list_all is_contradiction xs"
  shows "compare_testimonies cl loads text1 text2 w = (Some xs, w)"
  using assms(1,2,3) by (simp add: compare_testimonies_replied interpret_list)

theorem compare_testimonies_list_identity_witness:
  "chat_create (stub_reply list_payload) (compare_request statement1 statement2) =
     Inr (Completion [Choice (Some list_payload)]) \<and>
   raw_response_of (Completion [Choice (Some list_payload)]) = Inr list_payload \<and>
   stub_json list_payload = Inr (JList [a_contradiction]) \<and>
   list_all is_contradiction [a_contradiction] \<and>
   compare_testimonies (stub_reply list_payload) stub_json statement1 statement2 (world_of []) =
     (Some [a_contradiction], world_of [])"
proof -
  have h1: "chat_create (stub_reply list_payload) (compare_request statement1 statement2) =
              Inr (Completion [Choice (Some list_payload)])"
    by (rule stub_reply_answers)
  have h2: "raw_response_of (Completion [Choice (Some list_payload)]) = Inr list_payload"
    by (simp add: raw_response_of_def payloads_stripped)
  have h3: "stub_json list_payload = Inr (JList [a_contradiction])"
    by (rule stub_json_values)
  have h4: "list_all is_contradiction [a_contradiction]"
    by (simp add: a_contradiction_ok)
  note inst = compare_testimonies_list_identity
         [where loads = stub_json and w = "world_of []", OF h1 h2 h3 h4]
  show ?thesis by (intro conjI h1 h2 h3 h4 inst)
qed

text \<open>
  C2. When the call answers and the payload parses as a JSON object with at least one
  list-valued entry, compare\_testimonies returns the first such entry in the order of the
  object's items and emits one warning naming its key; in particular, when exactly one
  entry is list-valued, that list is returned.
\<close>

theorem compare_testimonies_salvages_first_list:
  assumes "chat_create cl (compare_request text1 text2) = Inr response"
    and "raw_response_of response = Inr payload"
    and "loads payload = Inr (JDict items)"
  shows "(has_list_value items \<longrightarrow>
            (\<exists>before key xs after.
               items = before @ (key, JList xs) # after \<and> no_list_value before \<and>
               compare_testimonies cl loads text1 text2 w =
                 (Some xs, st_warning (UsedListFromKey key) w))) \<and>
         (\<forall>key xs. list_values items = [(key, JList xs)] \<longrightarrow>
            compare_testimonies cl loads text1 text2 w =
              (Some xs, st_warning (UsedListFromKey key) w))"
proof (intro conjI impI allI)
  assume "has_list_value items"
  then have "\<exists>kv\<in>set items. is_list (snd kv)"
    by (simp add: has_list_value_def list_ex_iff)
  from first_list_split [OF this] obtain before key xs after
    where split: "items = before @ (key, JList xs) # after"
      and before: "\<forall>kv\<in>set before. \<not> is_list (snd kv)"
    by (elim exE conjE)
  from assms(3) have "loads payload = Inr (JDict (before @ (key, JList xs) # after))"
    by (simp only: split)
  from interpret_salvage [where loads = loads and payload = payload, OF this before]
  have "interpret_response loads payload w = Inr (xs, st_warning (UsedListFromKey key) w)" .
  with assms(1,2)
  have res: "compare_testimonies cl loads text1 text2 w =
          (Some xs, st_warning (UsedListFromKey key) w)"
    by (simp add: compare_testimonies_replied)
  from before have nl: "no_list_value before"
    by (simp add: no_list_value_def list_all_iff)
  show "\<exists>before key xs after.
      items = before @ (key, JList xs) # after \<and> no_list_value before \<and>
      compare_testimonies cl loads text1 text2 w =
        (Some xs, st_warning (UsedListFromKey key) w)"
    by (intro exI conjI) (rule split, rule nl, rule res)
next
  fix key xs
  assume "list_values items = [(key, JList xs)]"
  then have "filter (\<lambda>kv. is_list (snd kv)) items = [(key, JList xs)]"
    by (simp only: list_values_def)
  from only_list_split [OF this] obtain before after
    where split: "items = before @ (key, JList xs) # after"
      and before: "\<forall>kv\<in>set before. \<not> is_list (snd kv)"
    by (elim exE conjE)
  from assms(3) have "loads payload = Inr (JDict (before @ (key, JList xs) # after))"
    by (simp only: split)
  from interpret_salvage [where loads = loads and payload = payload, OF this before]
  have "interpret_response loads payload w = Inr (xs, st_warning (UsedListFromKey key) w)" .
  with assms(1,2)
  show "compare_testimonies cl loads text1 text2 w =
          (Some xs, st_warning (UsedListFromKey key) w)"
    by (simp add: compare_testimonies_replied)
qed

theorem compare_testimonies_salvages_first_list_witness:
  "chat_create (stub_reply wrapped_payload) (compare_request statement1 statement2) =
     Inr (Completion [Choice (Some wrapped_payload)]) \<and>
   raw_response_of (Completion [Choice (Some wrapped_payload)]) = Inr wrapped_payload \<and>
   stub_json wrapped_payload =
     Inr (JDict [(str ''note'', JStr (str ''found one'')),
                 (str ''contradictions'', JList [a_contradiction])]) \<and>
   has_list_value [(str ''note'', JStr (str ''found one'')),
                   (str ''contradictions'', JList [a_contradiction])] \<and>
   list_values [(str ''note'', JStr (str ''found one'')),
                (str ''contradictions'', JList [a_contradiction])] =
     [(str ''contradictions'', JList [a_contradiction])] \<and>
   compare_testimonies (stub_reply wrapped_payload) stub_json statement1 statement2
       (world_of []) =
     (Some [a_contradiction],
      st_warning (UsedListFromKey (str ''contradictions'')) (world_of []))"
proof -
  have h1: "chat_create (stub_reply wrapped_payload) (compare_request statement1 statement2) =
              Inr (Completion [Choice (Some wrapped_payload)])"
    by (rule stub_reply_answers)
  have h2: "raw_response_of (Completion [Choice (Some wrapped_payload)]) = Inr wrapped_payload"
    by (simp add: raw_response_of_def payloads_stripped)
  have h3: "stub_json wrapped_payload =
              Inr (JDict [(str ''note'', JStr (str ''found one'')),
                          (str ''contradictions'', JList [a_contradiction])])"
    by (simp add: stub_json_values wrapped_value_def)
  have h4: "has_list_value [(str ''note'', JStr (str ''found one'')),
                            (str ''contradictions'', JList [a_contradiction])]"
    by (simp add: has_list_value_def is_list_def)
  have h5: "list_values [(str ''note'', JStr (str ''found one'')),
                         (str ''contradictions'', JList [a_contradiction])] =
              [(str ''contradictions'', JList [a_contradiction])]"
    by (simp add: list_values_def is_list_def)
  note inst = compare_testimonies_salvages_first_list
         [where loads = stub_json and w = "world_of []", OF h1 h2 h3]
  have h6: "compare_testimonies (stub_reply wrapped_payload) stub_json statement1 statement2
            (world_of []) =
          (Some [a_contradiction],
           st_warning (UsedListFromKey (str ''contradictions'')) (world_of []))"
    by (rule inst [THEN conjunct2, THEN spec, THEN spec, THEN mp, OF h5])
  show ?thesis by (intro conjI h1 h2 h3 h4 h5 h6)
qed

text \<open>
  C3. When the call answers and the payload parses as a JSON object none of whose entries
  is a list, compare\_testimonies returns the empty list, shows one error and prints the
  payload; it returns a value, no exception.
\<close>

theorem compare_testimonies_listless_object:
  assumes "chat_create cl (compare_request text1 text2) = Inr response"
    and "raw_response_of response = Inr payload"
    and "loads payload = Inr (JDict items)"
    and "no_list_value items"
  shows "compare_testimonies cl loads text1 text2 w =
           (Some [], print (UnexpectedJson payload) (st_error JsonNotAList w))"
  using assms by (simp add: compare_testimonies_replied interpret_listless)

theorem compare_testimonies_listless_object_witness:
  "chat_create (stub_reply listless_payload) (compare_request statement1 statement2) =
     Inr (Completion [Choice (Some listless_payload)]) \<and>
   raw_response_of (Completion [Choice (Some listless_payload)]) = Inr listless_payload \<and>
   stub_json listless_payload =
     Inr (JDict [(str ''answer'', JStr (str ''none'')), (str ''count'', JInt 0)]) \<and>
   no_list_value [(str ''answer'', JStr (str ''none'')), (str ''count'', JInt 0)] \<and>
   compare_testimonies (stub_reply listless_payload) stub_json statement1 statement2
       (world_of []) =
     (Some [], print (UnexpectedJson listless_payload) (st_error JsonNotAList (world_of [])))"
proof -
  have h1: "chat_create (stub_reply listless_payload) (compare_request statement1 statement2) =
              Inr (Completion [Choice (Some listless_payload)])"
    by (rule stub_reply_answers)
  have h2: "raw_response_of (Completion [Choice (Some listless_payload)]) =
              Inr listless_payload"
    by (simp add: raw_response_of_def payloads_stripped)
  have h3: "stub_json listless_payload =
              Inr (JDict [(str ''answer'', JStr (str ''none'')), (str ''count'', JInt 0)])"
    by (simp add: stub_json_values listless_value_def)
  have h4: "no_list_value [(str ''answer'', JStr (str ''none'')), (str ''count'', JInt 0)]"
    by (simp add: no_list_value_def is_list_def)
  note inst = compare_testimonies_listless_object
         [where loads = stub_json and w = "world_of []", OF h1 h2 h3 h4]
  show ?thesis by (intro conjI h1 h2 h3 h4 inst)
qed

lemma broken_payload_undecodable:
  "stub_json broken_payload = Inl (JSONDecodeError broken_payload)"
  by (simp add: stub_json_def stub_loads_def broken_payload_def list_payload_def
        wrapped_payload_def listless_payload_def loose_payload_def str_def)

lemma broken_payload_stripped: "strip broken_payload = broken_payload"
  by (simp add: broken_payload_def str_def strip_def py_isspace_def)

lemma interpret_other_exception:
  assumes "loads payload = Inl e" and "\<not> is_decode_error e"
  shows "interpret_response loads payload w = Inl e"
  using assms by (cases e) (simp_all add: interpret_response_def is_decode_error_def)

lemma deep_payload_stripped: "strip deep_payload = deep_payload"
  by (simp add: deep_payload_def strip_def py_isspace_def)

lemma deep_payload_recursion:
  "stub_json_deep deep_payload = Inl (Raised (str ''RecursionError''))"
  by (simp add: stub_json_deep_def)

text \<open>
  C4, as the code has it. When the call answers and \<open>json.loads\<close> rejects the payload
  with a \<open>JSONDecodeError\<close>, compare\_testimonies returns the empty list, shows an error
  and a warning and prints the raw payload. When \<open>json.loads\<close> fails with any other
  exception, the outer handler returns \<open>None\<close> after one error message, and the payload is
  not printed. In both cases a value is returned: no exception reaches the caller.
\<close>

theorem compare_testimonies_undecodable:
  assumes "chat_create cl (compare_request text1 text2) = Inr response"
    and "raw_response_of response = Inr payload"
  shows "(\<forall>m. loads payload = Inl (JSONDecodeError m) \<longrightarrow>
            compare_testimonies cl loads text1 text2 w =
              (Some [], print (InvalidJson payload)
                          (st_warning NoValidJson
                             (st_error (JsonDecodeFailed (JSONDecodeError m)) w)))) \<and>
         (\<forall>e. loads payload = Inl e \<and> \<not> is_decode_error e \<longrightarrow>
            compare_testimonies cl loads text1 text2 w =
              (None, st_error (CompareFailed e) w))"
proof (intro conjI allI impI)
  fix m
  assume "loads payload = Inl (JSONDecodeError m)"
  from interpret_undecodable [where loads = loads and payload = payload, OF this]
  have "interpret_response loads payload w =
          Inr ([], print (InvalidJson payload)
                     (st_warning NoValidJson
                        (st_error (JsonDecodeFailed (JSONDecodeError m)) w)))" .
  with assms show "compare_testimonies cl loads text1 text2 w =
      (Some [], print (InvalidJson payload)
                  (st_warning NoValidJson
                     (st_error (JsonDecodeFailed (JSONDecodeError m)) w)))"
    by (simp add: compare_testimonies_replied)
next
  fix e
  assume other: "loads payload = Inl e \<and> \<not> is_decode_error e"
  from interpret_other_exception
         [where loads = loads and payload = payload, OF other [THEN conjunct1]
            other [THEN conjunct2]]
  have "interpret_response loads payload w = Inl e" .
  with assms show "compare_testimonies cl loads text1 text2 w =
      (None, st_error (CompareFailed e) w)"
    by (simp add: compare_testimonies_replied)
qed

theorem compare_testimonies_undecodable_witness:
  "chat_create (stub_reply broken_payload) (compare_request statement1 statement2) =
     Inr (Completion [Choice (Some broken_payload)]) \<and>
   raw_response_of (Completion [Choice (Some broken_payload)]) = Inr broken_payload \<and>
   stub_json broken_payload = Inl (JSONDecodeError broken_payload) \<and>
   compare_testimonies (stub_reply broken_payload) stub_json statement1 statement2
       (world_of []) =
     (Some [], print (InvalidJson broken_payload)
                 (st_warning NoValidJson
                    (st_error (JsonDecodeFailed (JSONDecodeError broken_payload))
                       (world_of [])))) \<and>
   chat_create (stub_reply deep_payload) (compare_request statement1 statement2) =
     Inr (Completion [Choice (Some deep_payload)]) \<and>
   raw_response_of (Completion [Choice (Some deep_payload)]) = Inr deep_payload \<and>
   (stub_json_deep deep_payload = Inl (Raised (str ''RecursionError'')) \<and>
    \<not> is_decode_error (Raised (str ''RecursionError''))) \<and>
   compare_testimonies (stub_reply deep_payload) stub_json_deep statement1 statement2
       (world_of []) =
     (None, st_error (CompareFailed (Raised (str ''RecursionError''))) (world_of []))"
proof -
  have h1: "chat_create (stub_reply broken_payload) (compare_request statement1 statement2) =
              Inr (Completion [Choice (Some broken_payload)])"
    by (rule stub_reply_answers)
  have h2: "raw_response_of (Completion [Choice (Some broken_payload)]) = Inr broken_payload"
    by (simp add: raw_response_of_def broken_payload_stripped)
  have h3: "stub_json broken_payload = Inl (JSONDecodeError broken_payload)"
    by (rule broken_payload_undecodable)
  note inst = compare_testimonies_undecodable
         [where loads = stub_json and w = "world_of []", OF h1 h2]
  have h4: "compare_testimonies (stub_reply broken_payload) stub_json statement1 statement2
       (world_of []) =
     (Some [], print (InvalidJson broken_payload)
                 (st_warning NoValidJson
                    (st_error (JsonDecodeFailed (JSONDecodeError broken_payload))
                       (world_of []))))"
    by (rule inst [THEN conjunct1, THEN spec, THEN mp, OF h3])
  have g1: "chat_create (stub_reply deep_payload) (compare_request statement1 statement2) =
              Inr (Completion [Choice (Some deep_payload)])"
    by (rule stub_reply_answers)
  have g2: "raw_response_of (Completion [Choice (Some deep_payload)]) = Inr deep_payload"
    by (simp add: raw_response_of_def deep_payload_stripped)
  have g3: "stub_json_deep deep_payload = Inl (Raised (str ''RecursionError'')) \<and>
    \<not> is_decode_error (Raised (str ''RecursionError''))"
    by (simp add: deep_payload_recursion is_decode_error_def)
  note deep = compare_testimonies_undecodable
         [where loads = stub_json_deep and w = "world_of []", OF g1 g2]
  have g4: "compare_testimonies (stub_reply deep_payload) stub_json_deep statement1 statement2
       (world_of []) =
     (None, st_error (CompareFailed (Raised (str ''RecursionError''))) (world_of []))"
    by (rule deep [THEN conjunct2, THEN spec, THEN mp, OF g3])
  show ?thesis by (intro conjI h1 h2 h3 h4 g1 g2 g3 g4)
qed

text \<open>
  The claim as stated fails: the payload of a thousand opening brackets is not JSON, the
  call answered, and the result is \<open>None\<close>, not the empty list, with nothing printed.
\<close>

theorem compare_testimonies_unparseable_gives_none:
  "chat_create (stub_reply deep_payload) (compare_request statement1 statement2) =
     Inr (Completion [Choice (Some deep_payload)]) \<and>
   raw_response_of (Completion [Choice (Some deep_payload)]) = Inr deep_payload \<and>
   stub_json_deep deep_payload = Inl (Raised (str ''RecursionError'')) \<and>
   fst (compare_testimonies (stub_reply deep_payload) stub_json_deep statement1 statement2
          (world_of [])) = None \<and>
   stdout (snd (compare_testimonies (stub_reply deep_payload) stub_json_deep statement1
                  statement2 (world_of []))) = []"
proof -
  have g1: "chat_create (stub_reply deep_payload) (compare_request statement1 statement2) =
              Inr (Completion [Choice (Some deep_payload)])"
    by (rule stub_reply_answers)
  have g2: "raw_response_of (Completion [Choice (Some deep_payload)]) = Inr deep_payload"
    by (simp add: raw_response_of_def deep_payload_stripped)
  have g3: "stub_json_deep deep_payload = Inl (Raised (str ''RecursionError''))"
    by (rule deep_payload_recursion)
  have "interpret_response stub_json_deep deep_payload (world_of []) =
          Inl (Raised (str ''RecursionError''))"
    by (rule interpret_other_exception
          [where loads = stub_json_deep and payload = deep_payload, OF g3])
       (simp add: is_decode_error_def)
  with g1 g2 have res: "compare_testimonies (stub_reply deep_payload) stub_json_deep
      statement1 statement2 (world_of []) =
      (None, st_error (CompareFailed (Raised (str ''RecursionError''))) (world_of []))"
    by (simp add: compare_testimonies_replied)
  have g4: "fst (compare_testimonies (stub_reply deep_payload) stub_json_deep statement1
                   statement2 (world_of [])) = None"
    unfolding res by simp
  have g5: "stdout (snd (compare_testimonies (stub_reply deep_payload) stub_json_deep
                           statement1 statement2 (world_of []))) = []"
    unfolding res by (simp add: st_error_def world_of_def)
  show ?thesis by (intro conjI g1 g2 g3 g4 g5)
qed

text \<open>
  C9. The elements of a list payload are not inspected: when the call answers and the
  payload parses as a JSON list, that list is the result whatever its elements are,
  strings, numbers and objects without the four keys included.
\<close>

theorem compare_testimonies_no_element_check:
  assumes "chat_create cl (compare_request text1 text2) = Inr response"
    and "raw_response_of response = Inr payload"
    and "loads payload = Inr (JList xs)"
  shows "fst (compare_testimonies cl loads text1 text2 w) = Some xs"
proof -
  from interpret_list [where loads = loads and payload = payload, OF assms(3)]
  have "interpret_response loads payload w = Inr (xs, w)" .
  with assms(1,2) show ?thesis by (simp add: compare_testimonies_replied)
qed

theorem compare_testimonies_no_element_check_witness:
  "chat_create (stub_reply loose_payload) (compare_request statement1 statement2) =
     Inr (Completion [Choice (Some loose_payload)]) \<and>
   raw_response_of (Completion [Choice (Some loose_payload)]) = Inr loose_payload \<and>
   stub_json loose_payload = Inr (JList loose_value) \<and>
   \<not> list_ex is_contradiction loose_value \<and>
   fst (compare_testimonies (stub_reply loose_payload) stub_json statement1 statement2
          (world_of [])) = Some loose_value"
proof -
  have h1: "chat_create (stub_reply loose_payload) (compare_request statement1 statement2) =
              Inr (Completion [Choice (Some loose_payload)])"
    by (rule stub_reply_answers)
  have h2: "raw_response_of (Completion [Choice (Some loose_payload)]) = Inr loose_payload"
    by (simp add: raw_response_of_def payloads_stripped)
  have h3: "stub_json loose_payload = Inr (JList loose_value)"
    by (rule stub_json_values)
  have h4: "\<not> list_ex is_contradiction loose_value"
    by (simp add: loose_value_def is_contradiction_def str_def)
  note inst = compare_testimonies_no_element_check
         [where loads = stub_json and w = "world_of []", OF h1 h2 h3]
  show ?thesis by (intro conjI h1 h2 h3 h4 inst)
qed

section \<open>compare\_testimonies: what a call leaves behind\<close>

lemma interpret_response_frame:
  "interpret_response loads payload w =
     (case interpret_response loads payload (world_of []) of
        Inl e \<Rightarrow> Inl e
      | Inr (xs, v) \<Rightarrow> Inr (xs, w\<lparr>ui := ui w @ ui v, stdout := stdout w @ stdout v\<rparr>))"
  by (simp add: interpret_response_def st_warning_def st_error_def print_def world_of_def
        split: sum.splits json.splits option.splits exn.splits prod.splits)

lemma compare_body_frame:
  "compare_body cl loads text1 text2 w =
     (case compare_body cl loads text1 text2 (world_of []) of
        Inl e \<Rightarrow> Inl e
      | Inr (xs, v) \<Rightarrow> Inr (xs, w\<lparr>ui := ui w @ ui v, stdout := stdout w @ stdout v\<rparr>))"
proof (cases "chat_create cl (compare_request text1 text2)")
  case (Inl e)
  then show ?thesis by (simp add: compare_body_def)
next
  case (Inr response)
  show ?thesis
  proof (cases "raw_response_of response")
    case (Inl e)
    with Inr show ?thesis by (simp add: compare_body_def)
  next
    case inner: (Inr payload)
    from Inr inner have "compare_body cl loads text1 text2 w = interpret_response loads payload w"
      and "compare_body cl loads text1 text2 (world_of []) =
             interpret_response loads payload (world_of [])"
      by (simp_all add: compare_body_def)
    then show ?thesis using interpret_response_frame [of loads payload w] by simp
  qed
qed

lemma compare_testimonies_frame:
  "compare_testimonies cl loads text1 text2 w =
     (case compare_testimonies cl loads text1 text2 (world_of []) of
        (r, v) \<Rightarrow> (r, w\<lparr>ui := ui w @ ui v, stdout := stdout w @ stdout v\<rparr>))"
proof (cases "compare_body cl loads text1 text2 (world_of [])")
  case (Inl e)
  with compare_body_frame [of cl loads text1 text2 w]
  have "compare_body cl loads text1 text2 w = Inl e" by simp
  with Inl show ?thesis
    by (simp add: compare_testimonies_def st_error_def world_of_def)
next
  case (Inr p)
  obtain xs v where p: "p = (xs, v)" by (cases p)
  with Inr compare_body_frame [of cl loads text1 text2 w]
  have "compare_body cl loads text1 text2 w =
          Inr (xs, w\<lparr>ui := ui w @ ui v, stdout := stdout w @ stdout v\<rparr>)" by simp
  with Inr p show ?thesis by (simp add: compare_testimonies_def)
qed


lemma interpret_response_raises_iff:
  "(\<exists>e. interpret_response loads payload w = Inl e) \<longleftrightarrow>
     (\<exists>e. loads payload = Inl e \<and> \<not> is_decode_error e)"
  by (cases "loads payload")
     (auto simp: interpret_response_def is_decode_error_def
           split: json.splits option.splits exn.splits prod.splits)

lemma compare_body_raises_iff:
  "(\<exists>e. compare_body cl loads text1 text2 w = Inl e) \<longleftrightarrow>
     (\<exists>e. chat_create cl (compare_request text1 text2) = Inl e) \<or>
     (\<exists>response e. chat_create cl (compare_request text1 text2) = Inr response \<and>
        raw_response_of response = Inl e) \<or>
     (\<exists>response payload e. chat_create cl (compare_request text1 text2) = Inr response \<and>
        raw_response_of response = Inr payload \<and> loads payload = Inl e \<and>
        \<not> is_decode_error e)"
proof (cases "chat_create cl (compare_request text1 text2)")
  case (Inl e)
  then show ?thesis by (simp add: compare_body_def)
next
  case (Inr response)
  show ?thesis
  proof (cases "raw_response_of response")
    case (Inl e)
    with Inr show ?thesis by (simp add: compare_body_def)
  next
    case inner: (Inr payload)
    with Inr have "compare_body cl loads text1 text2 w = interpret_response loads payload w"
      by (simp add: compare_body_def)
    with Inr inner show ?thesis
      using interpret_response_raises_iff [of loads payload w] by simp
  qed
qed

lemma compare_testimonies_none_iff_raises:
  "fst (compare_testimonies cl loads text1 text2 w) = None \<longleftrightarrow>
     (\<exists>e. compare_body cl loads text1 text2 w = Inl e)"
  by (cases "compare_body cl loads text1 text2 w")
     (auto simp: compare_testimonies_def split: prod.splits)

lemma interpret_response_effect:
  assumes "interpret_response loads payload w = Inr (xs, w')"
  shows "xs = [] \<or> w' = w \<or> (\<exists>key. w' = st_warning (UsedListFromKey key) w)"
  using assms
  by (cases "loads payload")
     (auto simp: interpret_response_def
           split: json.splits option.splits exn.splits prod.splits)

lemma compare_body_effect:
  assumes "compare_body cl loads text1 text2 w = Inr (xs, w')"
  shows "xs = [] \<or> w' = w \<or> (\<exists>key. w' = st_warning (UsedListFromKey key) w)"
proof (cases "chat_create cl (compare_request text1 text2)")
  case (Inl e)
  with assms show ?thesis by (simp add: compare_body_def)
next
  case (Inr response)
  show ?thesis
  proof (cases "raw_response_of response")
    case (Inl e)
    with Inr assms show ?thesis by (simp add: compare_body_def)
  next
    case inner: (Inr payload)
    with Inr assms have "interpret_response loads payload w = Inr (xs, w')"
      by (simp add: compare_body_def)
    then show ?thesis by (rule interpret_response_effect)
  qed
qed

lemma store_contradictions_last_event:
  assumes "text1 \<noteq> []" and "text2 \<noteq> []"
  shows "last (ui (snd (store_contradictions cl loads True (Some text1) (Some text2) w))) =
           St_error CompareApiError \<longleftrightarrow>
         fst (compare_testimonies cl loads text1 text2 (st_info ComparingTestimonies w)) = None"
proof (cases "compare_body cl loads text1 text2 (st_info ComparingTestimonies w)")
  case (Inl e)
  with assms show ?thesis
    by (simp add: store_contradictions_def compare_testimonies_def st_error_def)
next
  case (Inr p)
  obtain xs w' where p: "p = (xs, w')" by (cases p)
  from Inr p have body: "compare_body cl loads text1 text2 (st_info ComparingTestimonies w) =
      Inr (xs, w')" by simp
  from compare_body_effect [OF body]
  have "xs = [] \<or> last (ui w') \<noteq> St_error CompareApiError"
    by (auto simp: st_info_def st_warning_def)
  with body assms show ?thesis
    by (auto simp: store_contradictions_def compare_testimonies_def st_info_def)
qed

lemma compare_testimonies_result_fixed:
  "fst (compare_testimonies cl loads text1 text2 w) =
     fst (compare_testimonies cl loads text1 text2 (world_of []))"
  using compare_testimonies_frame [of cl loads text1 text2 w]
  by (simp split: prod.splits)

lemma stub_failing_raises:
  "chat_create stub_failing request = Inl (Raised (str ''connection refused''))"
  by (simp add: stub_failing_def stub_client_def)

lemma statements_nonempty: "statement1 \<noteq> []" "statement2 \<noteq> []"
  by (simp_all add: statement1_def statement2_def str_def)

text \<open>
  C8. For a fixed backend and fixed texts the result and the messages of
  compare\_testimonies are the same from every state: one result, one list of UI messages
  and one list of printed lines serve all states, the messages are appended and nothing else
  of the state changes; so a second call after the first returns the same result.
\<close>

theorem compare_testimonies_deterministic:
  "(\<exists>result events prints. \<forall>w.
      compare_testimonies cl loads text1 text2 w =
        (result, w\<lparr>ui := ui w @ events, stdout := stdout w @ prints\<rparr>)) \<and>
   fst (compare_testimonies cl loads text1 text2 w1) =
     fst (compare_testimonies cl loads text1 text2 w2) \<and>
   fst (compare_testimonies cl loads text1 text2
          (snd (compare_testimonies cl loads text1 text2 w1))) =
     fst (compare_testimonies cl loads text1 text2 w1) \<and>
   files (snd (compare_testimonies cl loads text1 text2 w1)) = files w1 \<and>
   logged (snd (compare_testimonies cl loads text1 text2 w1)) = logged w1"
proof (intro conjI)
  obtain r v where rv: "compare_testimonies cl loads text1 text2 (world_of []) = (r, v)"
    by (cases "compare_testimonies cl loads text1 text2 (world_of [])")
  have "\<forall>w. compare_testimonies cl loads text1 text2 w =
          (r, w\<lparr>ui := ui w @ ui v, stdout := stdout w @ stdout v\<rparr>)"
    using compare_testimonies_frame [of cl loads text1 text2] rv by simp
  then show "\<exists>result events prints. \<forall>w.
      compare_testimonies cl loads text1 text2 w =
        (result, w\<lparr>ui := ui w @ events, stdout := stdout w @ prints\<rparr>)"
    by (intro exI)
  show "fst (compare_testimonies cl loads text1 text2 w1) =
          fst (compare_testimonies cl loads text1 text2 w2)"
    using compare_testimonies_result_fixed [of cl loads text1 text2 w1]
      compare_testimonies_result_fixed [of cl loads text1 text2 w2] by simp
  show "fst (compare_testimonies cl loads text1 text2
               (snd (compare_testimonies cl loads text1 text2 w1))) =
          fst (compare_testimonies cl loads text1 text2 w1)"
    using compare_testimonies_result_fixed [of cl loads text1 text2 w1]
      compare_testimonies_result_fixed
        [of cl loads text1 text2 "snd (compare_testimonies cl loads text1 text2 w1)"]
    by simp
  show "files (snd (compare_testimonies cl loads text1 text2 w1)) = files w1"
    using compare_testimonies_frame [of cl loads text1 text2 w1]
    by (simp split: prod.splits)
  show "logged (snd (compare_testimonies cl loads text1 text2 w1)) = logged w1"
    using compare_testimonies_frame [of cl loads text1 text2 w1]
    by (simp split: prod.splits)
qed

text \<open>
  C5, as the code has it. Whenever the remote call raises, compare\_testimonies returns
  \<open>None\<close>, which is not a list. It returns \<open>None\<close> exactly when an exception reaches the
  outer handler: the remote call raises, or the response has no first choice or no text
  content, or \<open>json.loads\<close> raises something other than a \<open>JSONDecodeError\<close>. The caller
  reports the API error exactly on \<open>None\<close>.
\<close>

theorem compare_testimonies_unavailable:
  "(\<forall>e. chat_create cl (compare_request text1 text2) = Inl e \<longrightarrow>
      compare_testimonies cl loads text1 text2 w = (None, st_error (CompareFailed e) w)) \<and>
   (fst (compare_testimonies cl loads text1 text2 w) = None \<longleftrightarrow>
      (\<exists>e. chat_create cl (compare_request text1 text2) = Inl e) \<or>
      (\<exists>response e. chat_create cl (compare_request text1 text2) = Inr response \<and>
         raw_response_of response = Inl e) \<or>
      (\<exists>response payload e. chat_create cl (compare_request text1 text2) = Inr response \<and>
         raw_response_of response = Inr payload \<and> loads payload = Inl e \<and>
         \<not> is_decode_error e)) \<and>
   (text1 \<noteq> [] \<and> text2 \<noteq> [] \<longrightarrow>
      (last (ui (snd (store_contradictions cl loads True (Some text1) (Some text2) w))) =
         St_error CompareApiError \<longleftrightarrow>
       fst (compare_testimonies cl loads text1 text2 w) = None))"
proof (intro conjI allI impI)
  fix e
  assume "chat_create cl (compare_request text1 text2) = Inl e"
  then show "compare_testimonies cl loads text1 text2 w =
               (None, st_error (CompareFailed e) w)"
    by (simp add: compare_testimonies_def compare_body_def)
next
  show "fst (compare_testimonies cl loads text1 text2 w) = None \<longleftrightarrow>
      (\<exists>e. chat_create cl (compare_request text1 text2) = Inl e) \<or>
      (\<exists>response e. chat_create cl (compare_request text1 text2) = Inr response \<and>
         raw_response_of response = Inl e) \<or>
      (\<exists>response payload e. chat_create cl (compare_request text1 text2) = Inr response \<and>
         raw_response_of response = Inr payload \<and> loads payload = Inl e \<and>
         \<not> is_decode_error e)"
    unfolding compare_testimonies_none_iff_raises by (rule compare_body_raises_iff)
next
  assume ne: "text1 \<noteq> [] \<and> text2 \<noteq> []"
  have "fst (compare_testimonies cl loads text1 text2 (st_info ComparingTestimonies w)) =
          fst (compare_testimonies cl loads text1 text2 w)"
    using compare_testimonies_result_fixed [of cl loads text1 text2 w]
      compare_testimonies_result_fixed
        [of cl loads text1 text2 "st_info ComparingTestimonies w"]
    by simp
  with store_contradictions_last_event [of text1 text2 cl loads w] ne
  show "last (ui (snd (store_contradictions cl loads True (Some text1) (Some text2) w))) =
          St_error CompareApiError \<longleftrightarrow>
        fst (compare_testimonies cl loads text1 text2 w) = None"
    by simp
qed

theorem compare_testimonies_unavailable_witness:
  "chat_create stub_failing (compare_request statement1 statement2) =
     Inl (Raised (str ''connection refused'')) \<and>
   (statement1 \<noteq> [] \<and> statement2 \<noteq> []) \<and>
   compare_testimonies stub_failing stub_json statement1 statement2 (world_of []) =
     (None, st_error (CompareFailed (Raised (str ''connection refused''))) (world_of [])) \<and>
   last (ui (snd (store_contradictions stub_failing stub_json True
                    (Some statement1) (Some statement2) (world_of [])))) =
     St_error CompareApiError"
proof -
  have h1: "chat_create stub_failing (compare_request statement1 statement2) =
              Inl (Raised (str ''connection refused''))"
    by (rule stub_failing_raises)
  have h2: "statement1 \<noteq> [] \<and> statement2 \<noteq> []"
    by (simp add: statements_nonempty)
  note inst = compare_testimonies_unavailable
         [of stub_failing statement1 statement2 stub_json "world_of []"]
  have h3: "compare_testimonies stub_failing stub_json statement1 statement2 (world_of []) =
     (None, st_error (CompareFailed (Raised (str ''connection refused''))) (world_of []))"
    by (rule inst [THEN conjunct1, THEN spec, THEN mp, OF h1])
  then have none: "fst (compare_testimonies stub_failing stub_json statement1 statement2
                          (world_of [])) = None"
    by simp
  have h4: "last (ui (snd (store_contradictions stub_failing stub_json True
                    (Some statement1) (Some statement2) (world_of [])))) =
     St_error CompareApiError"
    using inst [THEN conjunct2, THEN conjunct2, THEN mp, OF h2] none by simp
  show ?thesis by (intro conjI h1 h2 h3 h4)
qed

text \<open>
  The claim as stated fails: a response whose first choice has no text content is an
  answered call, and the result is \<open>None\<close> all the same.
\<close>

theorem compare_testimonies_none_without_call_failure:
  "chat_create stub_null_reply (compare_request statement1 statement2) =
     Inr (Completion [Choice None]) \<and>
   fst (compare_testimonies stub_null_reply stub_json statement1 statement2 (world_of [])) =
     None"
  by (simp add: stub_null_reply_def stub_client_def compare_testimonies_def compare_body_def
        raw_response_of_def)

section \<open>transcribe\_audio: the temporary file\<close>

lemma transcribe_attempt_files:
  "files (snd (transcribe_attempt cl audio_file language w)) = files w"
  by (simp add: transcribe_attempt_def st_error_def split: sum.splits)

lemma transcribe_audio_of_file:
  assumes "files w audio_file = Some (File readable bytes)"
  shows "transcribe_audio cl audio_file language w =
           (Inr (fst (transcribe_attempt cl audio_file language w)),
            (snd (transcribe_attempt cl audio_file language w))
              \<lparr>files := (files w)(audio_file := None)\<rparr>)"
proof -
  obtain result w1 where att: "transcribe_attempt cl audio_file language w = (result, w1)"
    by (cases "transcribe_attempt cl audio_file language w")
  with transcribe_attempt_files [of cl audio_file language w] have "files w1 = files w"
    by simp
  with assms att show ?thesis
    by (simp add: transcribe_audio_def os_path_exists_def os_remove_def)
qed

lemma transcribe_audio_returned:
  assumes "fst (transcribe_audio cl audio_file language w) = Inr result"
  shows "files (snd (transcribe_audio cl audio_file language w)) =
           (files w)(audio_file := None)"
proof -
  obtain r w1 where att: "transcribe_attempt cl audio_file language w = (r, w1)"
    by (cases "transcribe_attempt cl audio_file language w")
  with transcribe_attempt_files [of cl audio_file language w] have same: "files w1 = files w"
    by simp
  show ?thesis
  proof (cases "files w audio_file")
    case None
    with att same have "transcribe_audio cl audio_file language w = (Inr r, w1)"
      by (simp add: transcribe_audio_def os_path_exists_def)
    with None same show ?thesis by (simp add: fun_upd_idem)
  next
    case (Some n)
    show ?thesis
    proof (cases n)
      case (File readable bytes)
      with Some transcribe_audio_of_file [of w audio_file readable bytes cl language]
      show ?thesis by simp
    next
      case (Dir names)
      with Some att same
      have "transcribe_audio cl audio_file language w = (Inl IsADirectoryError, w1)"
        by (simp add: transcribe_audio_def os_path_exists_def os_remove_def)
      with assms show ?thesis by simp
    qed
  qed
qed

text \<open>
  C6. transcribe\_audio leaves no file behind: when the path names a file the function
  returns, whether the file could be opened and whether the transcription call raised or
  not, and whenever it returns the path no longer exists while every other path is as
  before.
\<close>

theorem transcribe_audio_removes_file:
  "(\<forall>readable bytes. files w audio_file = Some (File readable bytes) \<longrightarrow>
      (\<exists>result. fst (transcribe_audio cl audio_file language w) = Inr result)) \<and>
   (\<forall>result. fst (transcribe_audio cl audio_file language w) = Inr result \<longrightarrow>
      files (snd (transcribe_audio cl audio_file language w)) =
        (files w)(audio_file := None))"
proof (intro conjI allI impI)
  fix readable bytes
  assume "files w audio_file = Some (File readable bytes)"
  from transcribe_audio_of_file [OF this, of cl language]
  show "\<exists>result. fst (transcribe_audio cl audio_file language w) = Inr result"
    by simp
next
  fix result
  assume "fst (transcribe_audio cl audio_file language w) = Inr result"
  then show "files (snd (transcribe_audio cl audio_file language w)) =
               (files w)(audio_file := None)"
    by (rule transcribe_audio_returned)
qed

lemma audio_world_file: "files audio_world audio_path = Some (File True [73, 68, 51])"
  by (simp add: audio_world_def world_of_def)

lemma failing_transcription:
  "fst (transcribe_audio (stub_whisper (Inl (Raised (str ''quota'')))) audio_path ''ru''
          audio_world) = Inr None"
  by (simp add: transcribe_audio_of_file [OF audio_world_file] transcribe_attempt_def
        py_open_def audio_world_file stub_whisper_def stub_client_def)

theorem transcribe_audio_removes_file_witness:
  "files audio_world audio_path = Some (File True [73, 68, 51]) \<and>
   fst (transcribe_audio (stub_whisper (Inl (Raised (str ''quota'')))) audio_path ''ru''
          audio_world) = Inr None \<and>
   files (snd (transcribe_audio (stub_whisper (Inl (Raised (str ''quota'')))) audio_path ''ru''
          audio_world)) audio_path = None"
proof -
  note inst = transcribe_audio_removes_file
    [of audio_world audio_path "stub_whisper (Inl (Raised (str ''quota'')))" "''ru''"]
  have h1: "files audio_world audio_path = Some (File True [73, 68, 51])"
    by (rule audio_world_file)
  have h2: "fst (transcribe_audio (stub_whisper (Inl (Raised (str ''quota'')))) audio_path
                   ''ru'' audio_world) = Inr None"
    by (rule failing_transcription)
  from inst [THEN conjunct2, THEN spec, THEN mp, OF h2]
  have h3: "files (snd (transcribe_audio (stub_whisper (Inl (Raised (str ''quota''))))
                          audio_path ''ru'' audio_world)) audio_path = None"
    by simp
  show ?thesis by (intro conjI h1 h2 h3)
qed

lemma successful_transcription:
  "transcribe_audio (stub_whisper (Inr (str ''I left at 9''))) audio_path ''ru'' audio_world =
     (Inr (Some (str ''I left at 9'')), audio_world\<lparr>files := (files audio_world)(audio_path := None)\<rparr>)"
  by (simp add: transcribe_audio_of_file [OF audio_world_file] transcribe_attempt_def
        py_open_def audio_world_file stub_whisper_def stub_client_def)

lemma unreadable_file_removed:
  "transcribe_audio cl audio_path ''ru'' (world_of [(audio_path, File False [])]) =
     (Inr None,
      (st_error (TranscribeFailed PermissionError) (world_of [(audio_path, File False [])]))
        \<lparr>files := (files (world_of [(audio_path, File False [])]))(audio_path := None)\<rparr>)"
proof -
  have f: "files (world_of [(audio_path, File False [])]) audio_path = Some (File False [])"
    by (simp add: world_of_def)
  show ?thesis
    by (simp add: transcribe_audio_of_file [OF f] transcribe_attempt_def py_open_def f)
qed

section \<open>load\_history: reading the files and sorting the records\<close>

lemma py_open_logger_error: "py_open (logger_error r w) path = py_open w path"
  by (simp add: py_open_def logger_error_def)

lemma read_record_logger_error:
  "read_record load (logger_error r w) history_path file = read_record load w history_path file"
  by (simp add: read_record_def py_open_logger_error)

lemma readable_records_logger_error:
  "readable_records load (logger_error r w) history_path fs =
     readable_records load w history_path fs"
  by (simp add: readable_records_def read_record_logger_error)

lemma failure_records_logger_error:
  "failure_records load (logger_error r w) history_path fs =
     failure_records load w history_path fs"
  by (simp add: failure_records_def read_record_logger_error)

lemma load_files_spec:
  "load_files load history_path fs history w =
     (history @ readable_records load w history_path fs,
      w\<lparr>logged := logged w @ failure_records load w history_path fs\<rparr>)"
proof (induction fs arbitrary: history w)
  case Nil
  show ?case by (simp add: readable_records_def failure_records_def)
next
  case (Cons name rest)
  show ?case
  proof (cases "read_record load w history_path name")
    case (Inl e)
    then have step: "load_files load history_path (name # rest) history w =
        load_files load history_path rest history (logger_error (HistoryFileError name e) w)"
      by (auto simp: read_record_def split: sum.splits)
    from Inl have "readable_records load w history_path (name # rest) =
        readable_records load w history_path rest"
      and "failure_records load w history_path (name # rest) =
        HistoryFileError name e # failure_records load w history_path rest"
      by (simp_all add: readable_records_def failure_records_def)
    moreover have "load_files load history_path rest history
        (logger_error (HistoryFileError name e) w) =
        (history @ readable_records load w history_path rest,
         logger_error (HistoryFileError name e) w
           \<lparr>logged := logged (logger_error (HistoryFileError name e) w) @
              failure_records load w history_path rest\<rparr>)"
      using Cons.IH [of history "logger_error (HistoryFileError name e) w"]
      by (simp only: readable_records_logger_error failure_records_logger_error)
    ultimately show ?thesis using step by (simp add: logger_error_def)
  next
    case (Inr x)
    then have step: "load_files load history_path (name # rest) history w =
        load_files load history_path rest (history @ [x]) w"
      by (auto simp: read_record_def split: sum.splits)
    from Inr have "readable_records load w history_path (name # rest) =
        x # readable_records load w history_path rest"
      and "failure_records load w history_path (name # rest) =
        failure_records load w history_path rest"
      by (simp_all add: readable_records_def failure_records_def)
    with step Cons.IH [of "history @ [x]" w] show ?thesis by simp
  qed
qed

lemma load_history_absent:
  assumes "files w (str ''storage/'' @ module_type) = None"
  shows "load_history lt load module_type w = (Inr [], w)"
  using assms by (simp add: load_history_def os_path_exists_def Let_def)

lemma load_history_of_directory:
  assumes "files w (str ''storage/'' @ module_type) = Some (Dir names)"
  shows "load_history lt load module_type w =
           (sorted_reverse lt date_key
              (readable_records load w (str ''storage/'' @ module_type) (json_files names)),
            w\<lparr>logged := logged w @
                 failure_records load w (str ''storage/'' @ module_type) (json_files names)\<rparr>)"
  using assms
  by (simp add: load_history_def os_path_exists_def os_listdir_def load_files_spec
        json_files_def Let_def)

lemma insert_desc_strings:
  assumes "compares_strings lt" and "fst x = JStr s"
    and "\<forall>y\<in>set ys. \<exists>t. fst y = JStr t"
  shows "\<exists>zs. insert_desc lt x ys = Inr zs \<and> mset zs = add_mset x (mset ys) \<and>
           (sorted_wrt key_desc ys \<longrightarrow> sorted_wrt key_desc zs) \<and>
           (\<forall>k. filter (\<lambda>z. fst z = k) zs = filter (\<lambda>z. fst z = k) (x # ys))"
  using assms(3)
proof (induction ys)
  case Nil
  show ?case by simp
next
  case (Cons y ys)
  from Cons.prems obtain t where t: "fst y = JStr t" by auto
  from assms(1) have cmp: "lt (JStr s) (JStr t) = Inr (s < t)"
    by (simp add: compares_strings_def)
  show ?case
  proof (cases "s < t")
    case True
    from Cons obtain zs where zs: "insert_desc lt x ys = Inr zs"
      and ms: "mset zs = add_mset x (mset ys)"
      and so: "sorted_wrt key_desc ys \<longrightarrow> sorted_wrt key_desc zs"
      and fi: "\<forall>k. filter (\<lambda>z. fst z = k) zs = filter (\<lambda>z. fst z = k) (x # ys)"
      by auto
    from True cmp assms(2) t zs have ins: "insert_desc lt x (y # ys) = Inr (y # zs)"
      by simp
    from ms have "set_mset (mset zs) = set_mset (add_mset x (mset ys))" by simp
    then have set: "set zs = insert x (set ys)" by simp
    from True assms(2) t have yx: "key_desc y x"
      by (simp add: key_desc_def key_text_def)
    have "sorted_wrt key_desc (y # ys) \<longrightarrow> sorted_wrt key_desc (y # zs)"
      using so set yx by auto
    moreover have "\<forall>k. filter (\<lambda>z. fst z = k) (y # zs) =
        filter (\<lambda>z. fst z = k) (x # y # ys)"
      using fi True assms(2) t by auto
    moreover have "mset (y # zs) = add_mset x (mset (y # ys))"
      using ms by simp
    ultimately show ?thesis using ins by blast
  next
    case False
    with cmp assms(2) t have ins: "insert_desc lt x (y # ys) = Inr (x # y # ys)"
      by simp
    from False assms(2) t have xy: "key_desc x y"
      by (simp add: key_desc_def key_text_def)
    have "sorted_wrt key_desc (y # ys) \<longrightarrow> sorted_wrt key_desc (x # y # ys)"
      using xy by (auto simp: key_desc_def)
    with ins show ?thesis by simp
  qed
qed

lemma sort_desc_strings:
  assumes "compares_strings lt" and "\<forall>y\<in>set kxs. \<exists>t. fst y = JStr t"
  shows "\<exists>zs. sort_desc lt kxs = Inr zs \<and> mset zs = mset kxs \<and> sorted_wrt key_desc zs \<and>
           (\<forall>k. filter (\<lambda>z. fst z = k) zs = filter (\<lambda>z. fst z = k) kxs)"
  using assms(2)
proof (induction kxs)
  case Nil
  show ?case by simp
next
  case (Cons x kxs)
  then obtain ys where ys: "sort_desc lt kxs = Inr ys" and ms: "mset ys = mset kxs"
      and so: "sorted_wrt key_desc ys"
      and fi: "\<forall>k. filter (\<lambda>z. fst z = k) ys = filter (\<lambda>z. fst z = k) kxs"
    by auto
  from Cons.prems obtain s where s: "fst x = JStr s" by auto
  from ms have "set_mset (mset ys) = set_mset (mset kxs)" by simp
  then have "set ys = set kxs" by simp
  with Cons.prems have "\<forall>y\<in>set ys. \<exists>t. fst y = JStr t" by simp
  from insert_desc_strings [OF assms(1) s this] obtain zs
    where zs: "insert_desc lt x ys = Inr zs" and ms': "mset zs = add_mset x (mset ys)"
      and so': "sorted_wrt key_desc ys \<longrightarrow> sorted_wrt key_desc zs"
      and fi': "\<forall>k. filter (\<lambda>z. fst z = k) zs = filter (\<lambda>z. fst z = k) (x # ys)"
    by blast
  from ys zs have "sort_desc lt (x # kxs) = Inr zs" by simp
  moreover from ms ms' have "mset zs = mset (x # kxs)" by simp
  moreover from so so' have "sorted_wrt key_desc zs" by simp
  moreover from fi fi' have "\<forall>k. filter (\<lambda>z. fst z = k) zs =
      filter (\<lambda>z. fst z = k) (x # kxs)" by simp
  ultimately show ?case by blast
qed

lemma date_key_text: "has_text_date x \<Longrightarrow> date_key x = Inr (JStr (date_text x))"
  by (auto simp: has_text_date_def date_key_def date_text_def
        split: json.splits option.splits)

lemma with_keys_dates:
  "list_all has_text_date xs \<Longrightarrow>
     with_keys date_key xs = Inr (map (\<lambda>x. (JStr (date_text x), x)) xs)"
  by (induction xs) (simp_all add: date_key_text)

lemma lacks_date_text: "lacks_date x \<Longrightarrow> date_text x = []"
  by (auto simp: lacks_date_def date_text_def split: json.splits)

lemma sorted_reverse_dates:
  assumes "compares_strings lt" and "list_all has_text_date xs"
  shows "\<exists>ys. sorted_reverse lt date_key xs = Inr ys \<and> mset ys = mset xs \<and>
           sorted_wrt newer_first ys \<and>
           (\<forall>d. filter (\<lambda>x. date_text x = d) ys = filter (\<lambda>x. date_text x = d) xs)"
proof -
  define f :: "json \<Rightarrow> json \<times> json" where "f = (\<lambda>x. (JStr (date_text x), x))"
  have keys: "with_keys date_key xs = Inr (map f xs)"
    using with_keys_dates [OF assms(2)] by (simp add: f_def)
  have "\<forall>y\<in>set (map f xs). \<exists>t. fst y = JStr t" by (auto simp: f_def)
  from sort_desc_strings [OF assms(1) this] obtain zs
    where zs: "sort_desc lt (map f xs) = Inr zs" and ms: "mset zs = mset (map f xs)"
      and so: "sorted_wrt key_desc zs"
      and fi: "\<forall>k. filter (\<lambda>z. fst z = k) zs = filter (\<lambda>z. fst z = k) (map f xs)"
    by blast
  define ys where "ys = map snd zs"
  from ms have "set_mset (mset zs) = set_mset (mset (map f xs))" by simp
  then have "set zs = f ` set xs" by simp
  then have "\<forall>z\<in>set zs. f (snd z) = z" by (auto simp: f_def)
  then have zs_eq: "zs = map f ys" by (simp add: ys_def map_idI)
  from keys zs have res: "sorted_reverse lt date_key xs = Inr ys"
    by (simp add: sorted_reverse_def ys_def)
  have "image_mset snd (mset zs) = image_mset snd (mset (map f xs))" by (simp only: ms)
  then have perm: "mset ys = mset xs"
    by (simp add: ys_def f_def comp_def multiset.map_comp)
  have nf: "newer_first = (\<lambda>a b. date_text b \<le> date_text a)"
    by (intro ext) (simp add: newer_first_def)
  from so have sorted: "sorted_wrt newer_first ys"
    by (simp add: zs_eq sorted_wrt_map key_desc_def nf f_def key_text_def)
  have stable: "filter (\<lambda>x. date_text x = d) ys = filter (\<lambda>x. date_text x = d) xs" for d
  proof -
    from fi have "filter (\<lambda>z. fst z = JStr d) (map f ys) =
        filter (\<lambda>z. fst z = JStr d) (map f xs)"
      by (simp add: zs_eq)
    then have "map f (filter (\<lambda>x. date_text x = d) ys) =
        map f (filter (\<lambda>x. date_text x = d) xs)"
      by (simp add: filter_map comp_def f_def)
    then have "map snd (map f (filter (\<lambda>x. date_text x = d) ys)) =
        map snd (map f (filter (\<lambda>x. date_text x = d) xs))"
      by simp
    then show ?thesis by (simp add: f_def comp_def)
  qed
  from res perm sorted stable show ?thesis by blast
qed

lemma stub_lt_strings: "compares_strings stub_lt"
  by (simp add: compares_strings_def stub_lt_def)

lemma history_dir:
  "files history_world (str ''storage/'' @ str ''planning'') =
     Some (Dir [str ''b.json'', str ''notes.txt'', str ''a.json'', str ''c.json'',
                str ''d.json'', str ''e.json''])"
  by (simp add: history_world_def world_of_def str_def)

lemma history_json_files:
  "json_files [str ''b.json'', str ''notes.txt'', str ''a.json'', str ''c.json'',
               str ''d.json'', str ''e.json''] =
     [str ''b.json'', str ''a.json'', str ''c.json'', str ''d.json'', str ''e.json'']"
  by (simp add: json_files_def endswith_def str_def)

lemma history_reads:
  "read_record history_load history_world (str ''storage/'' @ str ''planning'') (str ''b.json'') = Inr plan_2024"
  "read_record history_load history_world (str ''storage/'' @ str ''planning'') (str ''a.json'') = Inr plan_2025"
  "read_record history_load history_world (str ''storage/'' @ str ''planning'') (str ''c.json'') = Inr plan_undated"
  "read_record history_load history_world (str ''storage/'' @ str ''planning'') (str ''d.json'') = Inl PermissionError"
  "read_record history_load history_world (str ''storage/'' @ str ''planning'') (str ''e.json'') = Inl (JSONDecodeError [])"
  by (simp_all add: read_record_def py_open_def os_path_join_def history_world_def
        world_of_def history_load_def stub_load_def str_def)

lemma history_readable:
  "readable_records history_load history_world (str ''storage/'' @ str ''planning'')
     [str ''b.json'', str ''a.json'', str ''c.json'', str ''d.json'', str ''e.json''] =
     [plan_2024, plan_2025, plan_undated]"
  by (simp add: readable_records_def history_reads)

lemma history_sorted:
  "sorted_reverse stub_lt date_key [plan_2024, plan_2025, plan_undated] =
     Inr [plan_2025, plan_2024, plan_undated]"
  by (simp add: sorted_reverse_def date_key_def plan_2024_def plan_2025_def plan_undated_def
        stub_lt_def str_def)

text \<open>
  C7. For an existing module directory whose readable records are objects with a string
  (or no) \<open>generatedDate\<close>, load\_history returns exactly those records, newest date
  first, records with equal dates in the order of the listing; a record without the field
  counts as dated with the empty string, so no record with a non-empty date follows it.
\<close>

theorem load_history_newest_first:
  assumes "compares_strings lt"
    and "files w (str ''storage/'' @ module_type) = Some (Dir names)"
    and "list_all has_text_date
           (readable_records load w (str ''storage/'' @ module_type) (json_files names))"
  shows "\<exists>history.
           fst (load_history lt load module_type w) = Inr history \<and>
           mset history =
             mset (readable_records load w (str ''storage/'' @ module_type) (json_files names)) \<and>
           sorted_wrt newer_first history \<and>
           (\<forall>d. filter (\<lambda>x. date_text x = d) history =
                filter (\<lambda>x. date_text x = d)
                  (readable_records load w (str ''storage/'' @ module_type)
                     (json_files names))) \<and>
           (\<forall>i j. i < j \<and> j < length history \<and> lacks_date (history ! i) \<longrightarrow>
                  date_text (history ! j) = [])"
proof -
  from sorted_reverse_dates [OF assms(1) assms(3)] obtain history
    where res: "sorted_reverse lt date_key
                  (readable_records load w (str ''storage/'' @ module_type)
                     (json_files names)) = Inr history"
      and perm: "mset history =
             mset (readable_records load w (str ''storage/'' @ module_type) (json_files names))"
      and sorted: "sorted_wrt newer_first history"
      and stable: "\<forall>d. filter (\<lambda>x. date_text x = d) history =
                filter (\<lambda>x. date_text x = d)
                  (readable_records load w (str ''storage/'' @ module_type)
                     (json_files names))"
    by blast
  from res have ret: "fst (load_history lt load module_type w) = Inr history"
    by (simp add: load_history_of_directory [OF assms(2)])
  have last: "date_text (history ! j) = []"
    if "i < j \<and> j < length history \<and> lacks_date (history ! i)" for i j
  proof -
    from that sorted have "newer_first (history ! i) (history ! j)"
      by (simp add: sorted_wrt_iff_nth_less)
    with that show ?thesis by (simp add: newer_first_def lacks_date_text)
  qed
  from ret perm sorted stable last show ?thesis by blast
qed

theorem load_history_newest_first_witness:
  "compares_strings stub_lt \<and>
   files history_world (str ''storage/'' @ str ''planning'') =
     Some (Dir [str ''b.json'', str ''notes.txt'', str ''a.json'', str ''c.json'',
                str ''d.json'', str ''e.json'']) \<and>
   list_all has_text_date
     (readable_records history_load history_world (str ''storage/'' @ str ''planning'')
        (json_files [str ''b.json'', str ''notes.txt'', str ''a.json'', str ''c.json'',
                     str ''d.json'', str ''e.json''])) \<and>
   fst (load_history stub_lt history_load (str ''planning'') history_world) =
     Inr [plan_2025, plan_2024, plan_undated] \<and>
   sorted_wrt newer_first [plan_2025, plan_2024, plan_undated]"
proof -
  have h1: "compares_strings stub_lt" by (rule stub_lt_strings)
  have h2: "files history_world (str ''storage/'' @ str ''planning'') =
     Some (Dir [str ''b.json'', str ''notes.txt'', str ''a.json'', str ''c.json'',
                str ''d.json'', str ''e.json''])"
    by (rule history_dir)
  have h3: "list_all has_text_date
     (readable_records history_load history_world (str ''storage/'' @ str ''planning'')
        (json_files [str ''b.json'', str ''notes.txt'', str ''a.json'', str ''c.json'',
                     str ''d.json'', str ''e.json'']))"
    unfolding history_json_files history_readable
    by (simp add: has_text_date_def plan_2024_def plan_2025_def plan_undated_def str_def)
  have h4: "fst (load_history stub_lt history_load (str ''planning'') history_world) =
     Inr [plan_2025, plan_2024, plan_undated]"
    by (simp add: load_history_of_directory [OF h2] history_json_files history_readable
          history_sorted)
  from load_history_newest_first [OF h1 h2 h3] obtain history
    where "fst (load_history stub_lt history_load (str ''planning'') history_world) =
             Inr history"
      and "sorted_wrt newer_first history"
    by blast
  with h4 have h5: "sorted_wrt newer_first [plan_2025, plan_2024, plan_undated]" by simp
  show ?thesis by (intro conjI h1 h2 h3 h4 h5)
qed

text \<open>
  C10, as the code has it. An absent directory gives the empty list. In an existing
  directory every file that cannot be opened or parsed is skipped with one logged error,
  nothing else of the state changes, and the records of all the other files reach the sort;
  when these are objects with a string (or no) \<open>generatedDate\<close> they are all returned.
\<close>

theorem load_history_skips_failing_files:
  "(files w (str ''storage/'' @ module_type) = None \<longrightarrow>
      load_history lt load module_type w = (Inr [], w)) \<and>
   (\<forall>names. files w (str ''storage/'' @ module_type) = Some (Dir names) \<longrightarrow>
      snd (load_history lt load module_type w) =
        w\<lparr>logged := logged w @
             failure_records load w (str ''storage/'' @ module_type) (json_files names)\<rparr> \<and>
      fst (load_history lt load module_type w) =
        sorted_reverse lt date_key
          (readable_records load w (str ''storage/'' @ module_type) (json_files names)) \<and>
      (compares_strings lt \<and>
       list_all has_text_date
         (readable_records load w (str ''storage/'' @ module_type) (json_files names)) \<longrightarrow>
       (\<exists>history. fst (load_history lt load module_type w) = Inr history \<and>
          mset history =
            mset (readable_records load w (str ''storage/'' @ module_type)
                    (json_files names)))))"
proof (intro conjI allI impI)
  assume "files w (str ''storage/'' @ module_type) = None"
  then show "load_history lt load module_type w = (Inr [], w)"
    by (rule load_history_absent)
next
  fix names
  assume dir: "files w (str ''storage/'' @ module_type) = Some (Dir names)"
  show "snd (load_history lt load module_type w) =
        w\<lparr>logged := logged w @
             failure_records load w (str ''storage/'' @ module_type) (json_files names)\<rparr>"
    by (simp add: load_history_of_directory [OF dir])
  show "fst (load_history lt load module_type w) =
        sorted_reverse lt date_key
          (readable_records load w (str ''storage/'' @ module_type) (json_files names))"
    by (simp add: load_history_of_directory [OF dir])
  assume ok: "compares_strings lt \<and>
       list_all has_text_date
         (readable_records load w (str ''storage/'' @ module_type) (json_files names))"
  from sorted_reverse_dates [of lt] ok obtain history
    where "sorted_reverse lt date_key
             (readable_records load w (str ''storage/'' @ module_type) (json_files names)) =
           Inr history"
      and "mset history =
             mset (readable_records load w (str ''storage/'' @ module_type) (json_files names))"
    by blast
  then show "\<exists>history. fst (load_history lt load module_type w) = Inr history \<and>
          mset history =
            mset (readable_records load w (str ''storage/'' @ module_type)
                    (json_files names))"
    by (simp add: load_history_of_directory [OF dir])
qed

lemma history_failures:
  "failure_records history_load history_world (str ''storage/'' @ str ''planning'')
     [str ''b.json'', str ''a.json'', str ''c.json'', str ''d.json'', str ''e.json''] =
     [HistoryFileError (str ''d.json'') PermissionError,
      HistoryFileError (str ''e.json'') (JSONDecodeError [])]"
  by (simp add: failure_records_def history_reads)

lemma history_no_evidence:
  "files history_world (str ''storage/'' @ str ''evidence'') = None"
  by (simp add: history_world_def world_of_def str_def)

lemma history_log_empty: "logged history_world = []"
  by (simp add: history_world_def world_of_def)

theorem load_history_skips_failing_files_witness:
  "files history_world (str ''storage/'' @ str ''evidence'') = None \<and>
   load_history stub_lt history_load (str ''evidence'') history_world =
     (Inr [], history_world) \<and>
   files history_world (str ''storage/'' @ str ''planning'') =
     Some (Dir [str ''b.json'', str ''notes.txt'', str ''a.json'', str ''c.json'',
                str ''d.json'', str ''e.json'']) \<and>
   logged (snd (load_history stub_lt history_load (str ''planning'') history_world)) =
     [HistoryFileError (str ''d.json'') PermissionError,
      HistoryFileError (str ''e.json'') (JSONDecodeError [])] \<and>
   fst (load_history stub_lt history_load (str ''planning'') history_world) =
     Inr [plan_2025, plan_2024, plan_undated] \<and>
   (compares_strings stub_lt \<and>
    list_all has_text_date
      (readable_records history_load history_world (str ''storage/'' @ str ''planning'')
         (json_files [str ''b.json'', str ''notes.txt'', str ''a.json'', str ''c.json'',
                      str ''d.json'', str ''e.json'']))) \<and>
   mset [plan_2025, plan_2024, plan_undated] =
     mset (readable_records history_load history_world (str ''storage/'' @ str ''planning'')
             (json_files [str ''b.json'', str ''notes.txt'', str ''a.json'', str ''c.json'',
                          str ''d.json'', str ''e.json'']))"
proof -
  have h1: "files history_world (str ''storage/'' @ str ''evidence'') = None"
    by (rule history_no_evidence)
  have h2: "load_history stub_lt history_load (str ''evidence'') history_world =
     (Inr [], history_world)"
    by (rule load_history_skips_failing_files
          [of history_world "str ''evidence''" stub_lt history_load,
           THEN conjunct1, THEN mp, OF h1])
  have h3: "files history_world (str ''storage/'' @ str ''planning'') =
     Some (Dir [str ''b.json'', str ''notes.txt'', str ''a.json'', str ''c.json'',
                str ''d.json'', str ''e.json''])"
    by (rule history_dir)
  note inst = load_history_skips_failing_files
    [of history_world "str ''planning''" stub_lt history_load,
     THEN conjunct2, THEN spec, THEN mp, OF h3]
  have h4: "logged (snd (load_history stub_lt history_load (str ''planning'') history_world)) =
     [HistoryFileError (str ''d.json'') PermissionError,
      HistoryFileError (str ''e.json'') (JSONDecodeError [])]"
    unfolding inst [THEN conjunct1] history_json_files history_failures
    by (simp add: history_log_empty)
  have h5: "fst (load_history stub_lt history_load (str ''planning'') history_world) =
     Inr [plan_2025, plan_2024, plan_undated]"
    unfolding inst [THEN conjunct2, THEN conjunct1] history_json_files history_readable
    by (rule history_sorted)
  have h6: "compares_strings stub_lt \<and>
    list_all has_text_date
      (readable_records history_load history_world (str ''storage/'' @ str ''planning'')
         (json_files [str ''b.json'', str ''notes.txt'', str ''a.json'', str ''c.json'',
                      str ''d.json'', str ''e.json'']))"
    unfolding history_json_files history_readable
    by (simp add: stub_lt_strings has_text_date_def plan_2024_def plan_2025_def
          plan_undated_def str_def)
  from inst [THEN conjunct2, THEN conjunct2, THEN mp, OF h6] obtain history
    where "fst (load_history stub_lt history_load (str ''planning'') history_world) =
             Inr history"
      and "mset history =
             mset (readable_records history_load history_world
                     (str ''storage/'' @ str ''planning'')
                     (json_files [str ''b.json'', str ''notes.txt'', str ''a.json'',
                                  str ''c.json'', str ''d.json'', str ''e.json'']))"
    by blast
  with h5 have h7: "mset [plan_2025, plan_2024, plan_undated] =
     mset (readable_records history_load history_world (str ''storage/'' @ str ''planning'')
             (json_files [str ''b.json'', str ''notes.txt'', str ''a.json'', str ''c.json'',
                          str ''d.json'', str ''e.json'']))"
    by simp
  show ?thesis by (intro conjI h1 h2 h3 h4 h5 h6 h7)
qed

text \<open>
  The claim as stated fails: with one file of invalid JSON and one file holding the JSON
  number 5, the number is read without error and the sort then raises, so nothing is
  returned.
\<close>

theorem load_history_raises_on_non_object:
  "read_record odd_load odd_world (str ''storage/'' @ str ''planning'') (str ''x.json'') =
     Inl (JSONDecodeError []) \<and>
   read_record odd_load odd_world (str ''storage/'' @ str ''planning'') (str ''n.json'') =
     Inr (JInt 5) \<and>
   fst (load_history stub_lt odd_load (str ''planning'') odd_world) = Inl AttributeError"
proof -
  have dir: "files odd_world (str ''storage/'' @ str ''planning'') =
      Some (Dir [str ''x.json'', str ''n.json''])"
    by (simp add: odd_world_def world_of_def str_def)
  have js: "json_files [str ''x.json'', str ''n.json''] = [str ''x.json'', str ''n.json'']"
    by (simp add: json_files_def endswith_def str_def)
  have r1: "read_record odd_load odd_world (str ''storage/'' @ str ''planning'')
              (str ''x.json'') = Inl (JSONDecodeError [])"
    by (simp add: read_record_def py_open_def os_path_join_def odd_world_def world_of_def
          odd_load_def stub_load_def str_def)
  have r2: "read_record odd_load odd_world (str ''storage/'' @ str ''planning'')
              (str ''n.json'') = Inr (JInt 5)"
    by (simp add: read_record_def py_open_def os_path_join_def odd_world_def world_of_def
          odd_load_def stub_load_def str_def)
  have rs: "readable_records odd_load odd_world (str ''storage/'' @ str ''planning'')
              [str ''x.json'', str ''n.json''] = [JInt 5]"
    by (simp add: readable_records_def r1 r2)
  have "fst (load_history stub_lt odd_load (str ''planning'') odd_world) =
          sorted_reverse stub_lt date_key [JInt 5]"
    unfolding load_history_of_directory [OF dir] js rs by simp
  then have r3: "fst (load_history stub_lt odd_load (str ''planning'') odd_world) =
          Inl AttributeError"
    by (simp add: sorted_reverse_def date_key_def)
  show ?thesis by (intro conjI r1 r2 r3)
qed

end
